theory Spec2Isabelle
  imports Complex_Main "HOL-Library.Word"
begin

section \<open>Numeric conventions\<close>

text \<open>
  Samples and metrics are NumPy floating-point numbers in the program.  They are modelled
  as exact reals; a metric that NumPy can return as NaN (the mean of an empty slice) is a
  \<open>real option\<close> with \<open>None\<close> for NaN.  Every ordered comparison with NaN is false in
  Python, which is what \<open>fgt\<close> and \<open>flt\<close> compute.
\<close>

type_synonym npfloat = "real option"

definition fgt :: "npfloat \<Rightarrow> real \<Rightarrow> bool" where
  "fgt x c = (case x of None \<Rightarrow> False | Some v \<Rightarrow> v > c)"

definition flt :: "npfloat \<Rightarrow> real \<Rightarrow> bool" where
  "flt x c = (case x of None \<Rightarrow> False | Some v \<Rightarrow> v < c)"

definition np_mean :: "real list \<Rightarrow> npfloat" where
  \<comment> \<open>\<open>np.mean\<close> of a one-dimensional array; NaN on an empty one\<close>
  "np_mean xs = (if xs = [] then None else Some (sum_list xs / real (length xs)))"

section \<open>Audio: parameter derivation (\<open>audio_enhancer/core.py\<close>)\<close>

text \<open>
  The four metrics that \<open>AudioCleaner.analyze_quality\<close> computes (lines 88 to 108) and
  that its threshold rules read.
\<close>

record snapshot =
  peak :: real
  noise_floor :: npfloat
  snr :: npfloat
  hf_ratio :: npfloat

text \<open>The dictionary \<open>processing_params\<close>, with its four fixed keys.\<close>

record proc_params =
  noise_reduction :: real
  high_pass_cutoff :: int
  normalization_target :: real
  needs_limiting :: bool

definition default_params :: proc_params where
  "default_params =
     \<lparr>noise_reduction = 0, high_pass_cutoff = 0, normalization_target = 8 / 10,
      needs_limiting = False\<rparr>"

text \<open>
  Lines 116 to 189 of \<open>analyze_quality\<close>, one definition per \<open>if\<close>/\<open>elif\<close> chain, each
  threading the pair of \<open>processing_params\<close> and \<open>needs_processing\<close>.  The decimal
  thresholds are the exact rationals the literals denote.
\<close>

definition snr_rule :: "snapshot \<Rightarrow> proc_params \<times> bool \<Rightarrow> proc_params \<times> bool" where
  "snr_rule m = (\<lambda>(p, np).
     if flt (snr m) 15 then (p\<lparr>noise_reduction := 7 / 10\<rparr>, True)
     else if flt (snr m) 25 then (p\<lparr>noise_reduction := 5 / 10\<rparr>, True)
     else if flt (snr m) 40 then (p\<lparr>noise_reduction := 3 / 10\<rparr>, True)
     else (p\<lparr>noise_reduction := 0\<rparr>, np))"

definition hf_rule :: "snapshot \<Rightarrow> proc_params \<times> bool \<Rightarrow> proc_params \<times> bool" where
  "hf_rule m = (\<lambda>(p, np).
     if fgt (hf_ratio m) (3 / 10)
     then (p\<lparr>noise_reduction := min (noise_reduction p + 1 / 10) (8 / 10)\<rparr>, np)
     else (p, np))"

definition high_pass_rule :: "snapshot \<Rightarrow> proc_params \<times> bool \<Rightarrow> proc_params \<times> bool" where
  "high_pass_rule m = (\<lambda>(p, np).
     if fgt (noise_floor m) (1 / 100) then (p\<lparr>high_pass_cutoff := 80\<rparr>, True)
     else if fgt (noise_floor m) (5 / 1000) then (p\<lparr>high_pass_cutoff := 60\<rparr>, True)
     else if fgt (noise_floor m) (2 / 1000) then (p\<lparr>high_pass_cutoff := 40\<rparr>, np)
     else (p\<lparr>high_pass_cutoff := 0\<rparr>, np))"

definition volume_rule :: "snapshot \<Rightarrow> proc_params \<times> bool \<Rightarrow> proc_params \<times> bool" where
  "volume_rule m = (\<lambda>(p, np).
     if peak m > 99 / 100
     then (p\<lparr>needs_limiting := True, normalization_target := 75 / 100\<rparr>, True)
     else if peak m < 2 / 10 then (p\<lparr>normalization_target := 8 / 10\<rparr>, True)
     else if peak m < 5 / 10 then (p\<lparr>normalization_target := 8 / 10\<rparr>, np)
     else (p\<lparr>normalization_target := 85 / 100\<rparr>, np))"

definition derive_params :: "snapshot \<Rightarrow> proc_params \<times> bool" where
  "derive_params m =
     volume_rule m (high_pass_rule m (hf_rule m (snr_rule m (default_params, False))))"

section \<open>Audio: buffers\<close>

text \<open>
  A NumPy array of samples, by number of dimensions: a scalar (what iterating a
  one-dimensional array yields), a one-dimensional array (a mono buffer), or a
  two-dimensional array with one row per channel.
\<close>

datatype ndarray = Arr0 real | Arr1 "real list" | Arr2 "real list list"

fun ndim :: "ndarray \<Rightarrow> nat" where
  "ndim (Arr0 _) = 0"
| "ndim (Arr1 _) = 1"
| "ndim (Arr2 _) = 2"

fun elems :: "ndarray \<Rightarrow> real list" where
  "elems (Arr0 v) = [v]"
| "elems (Arr1 xs) = xs"
| "elems (Arr2 rows) = concat rows"

fun map_arr :: "(real \<Rightarrow> real) \<Rightarrow> ndarray \<Rightarrow> ndarray" where
  "map_arr f (Arr0 v) = Arr0 (f v)"
| "map_arr f (Arr1 xs) = Arr1 (map f xs)"
| "map_arr f (Arr2 rows) = Arr2 (map (map f) rows)"

fun chan_count :: "ndarray \<Rightarrow> nat" where
  \<comment> \<open>the channel count as \<open>load_audio\<close> reads it off an array\<close>
  "chan_count (Arr2 rows) = length rows"
| "chan_count _ = 1"

definition chan_layout :: "ndarray \<Rightarrow> nat \<times> nat" where
  \<comment> \<open>number of dimensions and number of channels\<close>
  "chan_layout a = (ndim a, chan_count a)"

fun iter_rows :: "ndarray \<Rightarrow> ndarray list option" where
  \<comment> \<open>\<open>for channel in a\<close>; a 0-d array is not iterable (TypeError)\<close>
  "iter_rows (Arr0 _) = None"
| "iter_rows (Arr1 xs) = Some (map Arr0 xs)"
| "iter_rows (Arr2 rows) = Some (map Arr1 rows)"

fun atleast_2d :: "ndarray \<Rightarrow> real list list" where
  "atleast_2d (Arr0 v) = [[v]]"
| "atleast_2d (Arr1 xs) = [xs]"
| "atleast_2d (Arr2 rows) = rows"

definition vstack :: "ndarray list \<Rightarrow> ndarray option" where
  \<comment> \<open>\<open>np.vstack\<close>: ValueError on an empty sequence or on rows of different lengths\<close>
  "vstack as =
     (let rows = concat (map atleast_2d as)
      in if as = [] then None
         else if list_all (\<lambda>r. length r = length (hd rows)) rows then Some (Arr2 rows)
         else None)"

definition to_mono :: "ndarray \<Rightarrow> real list" where
  \<comment> \<open>\<open>librosa.to_mono\<close>: the mean over the channel axis; a 1-d array is returned as is\<close>
  "to_mono a =
     (case a of
        Arr0 v \<Rightarrow> [v]
      | Arr1 xs \<Rightarrow> xs
      | Arr2 rows \<Rightarrow>
          (case rows of
             [] \<Rightarrow> []
           | r # _ \<Rightarrow>
               map (\<lambda>i. sum_list (map (\<lambda>c. c ! i) rows) / real (length rows))
                 [0 ..< length r]))"

definition np_clip :: "real \<Rightarrow> real \<Rightarrow> real \<Rightarrow> real" where
  "np_clip lo hi x = min (max x lo) hi"

section \<open>Audio: the cleaner\<close>

datatype error = ValueError | ResampleError | ZeroDivisionError | AttributeError

text \<open>
  The library calls whose result the program only passes on.  \<open>None\<close> is a raised
  exception, except for \<open>ext_hf_ratio\<close>, where it is NaN.
  \<^item> \<open>ext_hf_ratio x sr\<close>: lines 103 to 108, the ratio of the mean STFT magnitude
    above 8 kHz to the one below;
  \<^item> \<open>ext_reduce_noise amount sr y\<close>: \<open>nr.reduce_noise\<close> with \<open>prop_decrease = amount\<close>;
  \<^item> \<open>ext_highpass order normal_cutoff y\<close>: \<open>signal.butter\<close> followed by
    \<open>signal.filtfilt\<close>;
  \<^item> \<open>ext_resample orig_sr target_sr y\<close>: \<open>librosa.resample\<close> along the last axis.
\<close>

record externals =
  ext_hf_ratio :: "real list \<Rightarrow> int \<Rightarrow> npfloat"
  ext_reduce_noise :: "real \<Rightarrow> int option \<Rightarrow> ndarray \<Rightarrow> ndarray option"
  ext_highpass :: "nat \<Rightarrow> real \<Rightarrow> ndarray \<Rightarrow> ndarray option"
  ext_resample :: "int \<Rightarrow> int \<Rightarrow> ndarray \<Rightarrow> ndarray option"

text \<open>
  The fields of \<open>AudioCleaner\<close> that the processing reads.  \<open>is_stereo\<close> and
  \<open>needs_processing\<close> do not exist before \<open>load_audio\<close> and \<open>analyze_quality\<close> set them;
  \<open>processing_params\<close> is the empty dictionary until \<open>analyze_quality\<close> fills it.  None of
  them is read before it is set.
\<close>

record cleaner =
  target_sr :: int
  audio :: "ndarray option"
  analysis_audio :: "real list option"
  original_audio :: "ndarray option"
  sr :: "int option"
  channels :: nat
  is_stereo :: bool
  processing_params :: proc_params
  needs_processing :: bool

definition init_cleaner :: "int \<Rightarrow> cleaner" where
  "init_cleaner target_sample_rate =
     \<lparr>target_sr = target_sample_rate, audio = None, analysis_audio = None,
      original_audio = None, sr = None, channels = 0, is_stereo = False,
      processing_params = default_params, needs_processing = False\<rparr>"

text \<open>
  \<open>load_audio\<close>, given what \<open>librosa.load\<close> returned (\<open>None\<close> when it raised).  Reading
  \<open>shape[0]\<close> of a 0-d array raises IndexError inside the \<open>try\<close>.
\<close>

definition load_audio :: "(ndarray \<times> int) option \<Rightarrow> cleaner \<Rightarrow> cleaner \<times> bool" where
  "load_audio decoded s =
     (case decoded of
        None \<Rightarrow> (s, False)
      | Some (a, rate) \<Rightarrow>
          (case a of
             Arr0 _ \<Rightarrow> (s, False)
           | Arr1 _ \<Rightarrow>
               (s\<lparr>channels := 1, audio := Some a, is_stereo := False, sr := Some rate,
                  analysis_audio := Some (to_mono a), original_audio := Some a\<rparr>, True)
           | Arr2 rows \<Rightarrow>
               (s\<lparr>channels := length rows, audio := Some a, is_stereo := (length rows > 1),
                  sr := Some rate, analysis_audio := Some (to_mono a),
                  original_audio := Some a\<rparr>, True)))"

text \<open>
  Lines 88 to 108: the metrics of the mono mix \<open>x\<close> (non-empty).  \<open>int(len * 0.1)\<close> and
  \<open>int(len * 0.5)\<close> are the integer quotients by 10 and by 2.  The RMS level is only printed
  and is left out.
\<close>

definition snr_db :: "npfloat \<Rightarrow> npfloat \<Rightarrow> npfloat" where
  "snr_db nf sl =
     (if fgt nf 0
      then (case (sl, nf) of (Some s, Some n) \<Rightarrow> Some (20 * log 10 (s / n)) | _ \<Rightarrow> None)
      else Some 100)"

definition measure_quality :: "externals \<Rightarrow> real list \<Rightarrow> int \<Rightarrow> snapshot" where
  "measure_quality ext x rate =
     (let sorted_audio = sort (map abs x);
          nf = np_mean (take (length sorted_audio div 10) sorted_audio);
          sl = np_mean (drop (length sorted_audio div 2) sorted_audio)
      in \<lparr>peak = Max (set (map abs x)), noise_floor = nf, snr = snr_db nf sl,
          hf_ratio = ext_hf_ratio ext x rate\<rparr>)"

text \<open>
  \<open>analyze_quality\<close>: returns \<open>False\<close> at once when nothing is loaded; \<open>np.max\<close> of an
  empty array raises ValueError, which nothing catches.
\<close>

definition analyze_quality :: "externals \<Rightarrow> cleaner \<Rightarrow> error + (cleaner \<times> bool)" where
  "analyze_quality ext s =
     (case (audio s, analysis_audio s, sr s) of
        (Some _, Some x, Some rate) \<Rightarrow>
          (if x = [] then Inl ValueError
           else (let (p, np) = derive_params (measure_quality ext x rate)
                 in Inr (s\<lparr>needs_processing := np, processing_params := p\<rparr>, np)))
      | _ \<Rightarrow> Inr (s, False))"

text \<open>
  \<open>_apply_channelwise\<close>; \<open>None\<close> when \<open>func\<close>, the iteration or \<open>np.vstack\<close> raises, in
  which case \<open>self.audio\<close> has not been assigned.
\<close>

definition apply_channelwise :: "(ndarray \<Rightarrow> ndarray option) \<Rightarrow> cleaner \<Rightarrow> cleaner option" where
  "apply_channelwise func s =
     (case audio s of
        None \<Rightarrow> Some s
      | Some a \<Rightarrow>
          (if channels s \<le> 1
           then (case func a of None \<Rightarrow> None | Some b \<Rightarrow> Some (s\<lparr>audio := Some b\<rparr>))
           else (case iter_rows a of
                   None \<Rightarrow> None
                 | Some chs \<Rightarrow>
                     (case those (map func chs) of
                        None \<Rightarrow> None
                      | Some processed_channels \<Rightarrow>
                          (case vstack processed_channels of
                             None \<Rightarrow> None
                           | Some v \<Rightarrow> Some (s\<lparr>audio := Some v\<rparr>))))))"

definition adaptive_noise_reduction :: "externals \<Rightarrow> real \<Rightarrow> cleaner \<Rightarrow> cleaner" where
  "adaptive_noise_reduction ext amount s =
     (if amount \<le> 0 then s
      else (case apply_channelwise (ext_reduce_noise ext amount (sr s)) s of
              None \<Rightarrow> s
            | Some s' \<Rightarrow> s'))"

definition smart_normalize :: "real \<Rightarrow> cleaner \<Rightarrow> cleaner" where
  \<comment> \<open>\<open>max()\<close> of an empty array raises ValueError, caught by the \<open>except\<close>\<close>
  "smart_normalize target s =
     (case audio s of
        None \<Rightarrow> s
      | Some a \<Rightarrow>
          (if elems a = [] then s
           else (let pk = Max (set (map abs (elems a)))
                 in if pk > 0 then s\<lparr>audio := Some (map_arr (\<lambda>x. x * (target / pk)) a)\<rparr>
                    else s)))"

definition adaptive_high_pass :: "externals \<Rightarrow> int \<Rightarrow> cleaner \<Rightarrow> cleaner" where
  \<comment> \<open>dividing by a zero Nyquist frequency raises ZeroDivisionError, caught by the \<open>except\<close>\<close>
  "adaptive_high_pass ext cutoff s =
     (if cutoff \<le> 0 then s
      else (case (audio s, sr s) of
              (Some _, Some rate) \<Rightarrow>
                (if rate = 0 then s
                 else (let nyquist = real_of_int rate / 2;
                           normal_cutoff = real_of_int cutoff / nyquist;
                           order = (if cutoff \<le> 60 then 2 else 3)
                       in case apply_channelwise (ext_highpass ext order normal_cutoff) s of
                            None \<Rightarrow> s
                          | Some s' \<Rightarrow> s'))
            | _ \<Rightarrow> s))"

definition gentle_limiter :: "real \<Rightarrow> cleaner \<Rightarrow> cleaner" where
  "gentle_limiter threshold s =
     (case audio s of
        None \<Rightarrow> s
      | Some a \<Rightarrow>
          (let threshold_linear = 10 powr (threshold / 20)
           in s\<lparr>audio := Some (map_arr (np_clip (- threshold_linear) threshold_linear) a)\<rparr>))"

definition resample_if_needed :: "externals \<Rightarrow> cleaner \<Rightarrow> error + cleaner" where
  \<comment> \<open>no \<open>try\<close> here: an exception of the resampler leaves \<open>process\<close>\<close>
  "resample_if_needed ext s =
     (case (audio s, sr s) of
        (Some a, Some rate) \<Rightarrow>
          (if rate \<noteq> target_sr s
           then (case ext_resample ext rate (target_sr s) a of
                   None \<Rightarrow> Inl ResampleError
                 | Some b \<Rightarrow> Inr (s\<lparr>audio := Some b, sr := Some (target_sr s)\<rparr>))
           else Inr s)
      | _ \<Rightarrow> Inr s)"

definition restore_stereo :: "cleaner \<Rightarrow> cleaner" where
  \<comment> \<open>\<open>np.vstack([a, a])\<close> of a 1-d array \<open>a\<close> is the two-row array of its copies\<close>
  "restore_stereo s =
     (if \<not> is_stereo s then s
      else (case audio s of
              None \<Rightarrow> s
            | Some (Arr1 xs) \<Rightarrow> s\<lparr>audio := Some (Arr2 [xs, xs])\<rparr>
            | Some _ \<Rightarrow> s))"

text \<open>
  \<open>process\<close>, lines 332 to 364, cut at the stages: the corrections chosen by the analysis
  (\<open>needs\<close> is the value \<open>analyze_quality\<close> returned), normalisation, the limiter, then
  resampling and channel restoration.
\<close>

definition after_noise_reduction :: "externals \<Rightarrow> bool \<Rightarrow> cleaner \<Rightarrow> cleaner" where
  "after_noise_reduction ext needs s =
     (if needs \<and> noise_reduction (processing_params s) > 0
      then adaptive_noise_reduction ext (noise_reduction (processing_params s)) s
      else s)"

definition after_high_pass :: "externals \<Rightarrow> bool \<Rightarrow> cleaner \<Rightarrow> cleaner" where
  "after_high_pass ext needs s =
     (let s' = after_noise_reduction ext needs s
      in if needs \<and> high_pass_cutoff (processing_params s) > 0
         then adaptive_high_pass ext (high_pass_cutoff (processing_params s)) s'
         else s')"

definition after_normalize :: "externals \<Rightarrow> bool \<Rightarrow> cleaner \<Rightarrow> cleaner" where
  "after_normalize ext needs s =
     smart_normalize (normalization_target (processing_params s)) (after_high_pass ext needs s)"

definition after_limiter :: "externals \<Rightarrow> bool \<Rightarrow> cleaner \<Rightarrow> cleaner" where
  "after_limiter ext needs s =
     (if needs_limiting (processing_params s)
      then gentle_limiter (- (5 / 10)) (after_normalize ext needs s)
      else after_normalize ext needs s)"

definition process :: "externals \<Rightarrow> (ndarray \<times> int) option \<Rightarrow> cleaner \<Rightarrow> error + (cleaner \<times> bool)" where
  "process ext decoded s0 =
     (case load_audio decoded s0 of
        (s1, False) \<Rightarrow> Inr (s1, False)
      | (s1, True) \<Rightarrow>
          (case analyze_quality ext s1 of
             Inl e \<Rightarrow> Inl e
           | Inr (s2, needs) \<Rightarrow>
               (case resample_if_needed ext (after_limiter ext needs s2) of
                  Inl e \<Rightarrow> Inl e
                | Inr s6 \<Rightarrow> Inr (restore_stereo s6, True))))"

section \<open>Video: frames and the per-frame pipeline (\<open>video_enhancer/core.py\<close>)\<close>

text \<open>
  A frame is a height by width by 3 array of unsigned bytes.  On such an array
  \<open>cv2.convertScaleAbs\<close> works in single precision: \<open>alpha\<close> and \<open>beta\<close> are cast to
  \<open>float\<close>, every element becomes \<open>saturate_cast<uchar>(|src * alpha + beta|)\<close> evaluated in
  \<open>float\<close>, and the cast rounds to the nearest integer, a tie to the even one, and clamps to
  0..255.
\<close>

type_synonym frame = "8 word list list list"

definition cvRound :: "real \<Rightarrow> int" where
  "cvRound r =
     (let f = \<lfloor>r\<rfloor>; d = r - of_int f
      in if d < 1 / 2 then f else if d > 1 / 2 then f + 1 else if even f then f else f + 1)"

text \<open>
  The nearest IEEE binary32 number, a tie going to the even significand: 24 significant
  bits, hence a spacing of \<open>2 powr (e - 23)\<close> at binary exponent \<open>e\<close>, and the fixed spacing
  of the subnormal numbers below \<open>2 powr (- 126)\<close>.  Overflow to infinity (magnitudes of
  \<open>2 powr 128\<close> and more) is not represented.
\<close>

definition f32 :: "real \<Rightarrow> real" where
  "f32 r =
     (if r = 0 then 0
      else (let e = max \<lfloor>log 2 \<bar>r\<bar>\<rfloor> (- 126);
                ulp = 2 powr (real_of_int e - 23)
            in real_of_int (cvRound (r / ulp)) * ulp))"

definition saturate_u8 :: "int \<Rightarrow> 8 word" where
  "saturate_u8 v = (if v < 0 then 0 else if v > 255 then 255 else of_int v)"

text \<open>
  One element.  The sum is rounded once here; an evaluation that also rounds the product
  gives the same value in the two calls \<open>enhance_frame\<close> makes, where either \<open>alpha\<close> is 1
  (the product is exact) or \<open>beta\<close> is 0 (the sum is the product).
\<close>

definition scale_abs_px :: "real \<Rightarrow> real \<Rightarrow> 8 word \<Rightarrow> 8 word" where
  "scale_abs_px alpha beta x =
     saturate_u8 (cvRound \<bar>f32 (real (unat x) * f32 alpha + f32 beta)\<bar>)"

definition convertScaleAbs :: "real \<Rightarrow> real \<Rightarrow> frame \<Rightarrow> frame" where
  "convertScaleAbs alpha beta f = map (map (map (scale_abs_px alpha beta))) f"

record enh_params =
  needs_upscaling :: bool
  upscale_factor :: real
  denoise_strength :: int
  sharpen_amount :: real
  brightness_adjust :: int
  contrast_adjust :: real
  color_enhance :: bool

definition default_enh_params :: enh_params where
  "default_enh_params =
     \<lparr>needs_upscaling = False, upscale_factor = 1, denoise_strength = 0, sharpen_amount = 0,
      brightness_adjust = 0, contrast_adjust = 1, color_enhance = False\<rparr>"

text \<open>
  The OpenCV and NumPy operations that the program only passes frames through:
  \<^item> \<open>vx_denoise h f\<close>: \<open>cv2.fastNlMeansDenoisingColored\<close> with \<open>h = hColor\<close>;
  \<^item> \<open>vx_resize w h f\<close>: \<open>cv2.resize\<close> to \<open>(w, h)\<close> with the Lanczos kernel;
  \<^item> \<open>vx_unsharp amount f\<close>: the Gaussian blur and \<open>cv2.addWeighted\<close> of lines 247, 248;
  \<^item> \<open>vx_saturate f\<close>: the HSV round trip of lines 261 to 264;
  \<^item> \<open>vx_metrics f\<close>: brightness, contrast, sharpness and noise of one frame, lines 103
    to 119.
\<close>

record video_externals =
  vx_denoise :: "int \<Rightarrow> frame \<Rightarrow> frame"
  vx_resize :: "int \<Rightarrow> int \<Rightarrow> frame \<Rightarrow> frame"
  vx_unsharp :: "real \<Rightarrow> frame \<Rightarrow> frame"
  vx_saturate :: "frame \<Rightarrow> frame"
  vx_metrics :: "frame \<Rightarrow> real \<times> real \<times> real \<times> real"

definition frame_height :: "frame \<Rightarrow> nat" where
  "frame_height f = length f"

definition frame_width :: "frame \<Rightarrow> nat" where
  "frame_width f = (case f of [] \<Rightarrow> 0 | r # _ \<Rightarrow> length r)"

text \<open>Lines 250 to 256 of \<open>enhance_frame\<close>: stage 4, then stage 5.\<close>

definition brightness_stage :: "enh_params \<Rightarrow> frame \<Rightarrow> frame" where
  "brightness_stage p f =
     (if brightness_adjust p \<noteq> 0 then convertScaleAbs 1 (real_of_int (brightness_adjust p)) f
      else f)"

definition contrast_stage :: "enh_params \<Rightarrow> frame \<Rightarrow> frame" where
  "contrast_stage p f =
     (if contrast_adjust p \<noteq> 1 then convertScaleAbs (contrast_adjust p) 0 f else f)"

definition brightness_contrast :: "enh_params \<Rightarrow> frame \<Rightarrow> frame" where
  "brightness_contrast p f = contrast_stage p (brightness_stage p f)"

definition enhance_frame :: "video_externals \<Rightarrow> enh_params \<Rightarrow> frame \<Rightarrow> frame" where
  "enhance_frame vx p frame0 =
     (let f1 = (if denoise_strength p > 0 then vx_denoise vx (denoise_strength p) frame0
                else frame0);
          f2 = (if needs_upscaling p
                then vx_resize vx \<lfloor>real (frame_width f1) * upscale_factor p\<rfloor>
                       \<lfloor>real (frame_height f1) * upscale_factor p\<rfloor> f1
                else f1);
          f3 = (if sharpen_amount p > 0 then vx_unsharp vx (sharpen_amount p) f2 else f2);
          f5 = brightness_contrast p f3
      in if color_enhance p then vx_saturate vx f5 else f5)"

section \<open>Video: the capture and the analysis\<close>

text \<open>
  What the container yields: whether it opens, the metadata it reports (which may be
  zero or negative) and the frames that a sequential read returns.
\<close>

record video_file =
  vf_opens :: bool
  vf_fps :: real
  vf_frame_count :: int
  vf_width :: int
  vf_height :: int
  vf_frames :: "frame list"

text \<open>A \<open>cv2.VideoCapture\<close>: the file, the read cursor, and whether it was released.\<close>

record capture =
  cap_file :: video_file
  cap_pos :: nat
  cap_released :: bool

definition cap_is_open :: "capture \<Rightarrow> bool" where
  "cap_is_open c = (vf_opens (cap_file c) \<and> \<not> cap_released c)"

definition cap_read :: "capture \<Rightarrow> frame option \<times> capture" where
  \<comment> \<open>\<open>ret, frame = cap.read()\<close>: \<open>None\<close> stands for \<open>ret = False\<close>\<close>
  "cap_read c =
     (if cap_is_open c \<and> cap_pos c < length (vf_frames (cap_file c))
      then (Some (vf_frames (cap_file c) ! cap_pos c), c\<lparr>cap_pos := cap_pos c + 1\<rparr>)
      else (None, c))"

definition cap_set_pos :: "nat \<Rightarrow> capture \<Rightarrow> capture" where
  \<comment> \<open>\<open>cap.set(cv2.CAP_PROP_POS_FRAMES, i)\<close>\<close>
  "cap_set_pos i c = c\<lparr>cap_pos := i\<rparr>"

definition cap_release :: "capture \<Rightarrow> capture" where
  "cap_release c = c\<lparr>cap_released := True\<rparr>"

text \<open>
  The fields of \<open>VideoEnhancer\<close>.  \<open>fps\<close>, \<open>frame_count\<close>, \<open>width\<close>, \<open>height\<close> and
  \<open>duration\<close> do not exist before \<open>analyze_video\<close> sets them.
\<close>

record enhancer =
  target_resolution :: "(int \<times> int) option"
  cap :: "capture option"
  fps :: real
  frame_count :: int
  width :: int
  height :: int
  duration :: real
  enhancement_params :: enh_params

definition init_enhancer :: "(int \<times> int) option \<Rightarrow> enhancer" where
  "init_enhancer target =
     \<lparr>target_resolution = target, cap = None, fps = 0, frame_count = 0, width = 0,
      height = 0, duration = 0, enhancement_params = default_enh_params\<rparr>"

text \<open>Lines 61 to 66: the loop that reads until \<open>ret\<close> is false, counting.\<close>

function count_frames :: "capture \<Rightarrow> nat \<Rightarrow> nat \<times> capture" where
  "count_frames c n =
     (case cap_read c of
        (None, c') \<Rightarrow> (n, c')
      | (Some _, c') \<Rightarrow> count_frames c' (n + 1))"
  by pat_completeness auto
termination
  by (relation "measure (\<lambda>(c, n). length (vf_frames (cap_file c)) - cap_pos c)")
     (auto simp: cap_read_def split: if_splits)

text \<open>
  Lines 57 to 73: when the reported frame count or frame rate is not positive, count the
  frames by reading them all, put the cursor back, and assume 30 frames per second if the
  rate is unknown.
\<close>

definition recover_metadata :: "enhancer \<Rightarrow> enhancer" where
  "recover_metadata s =
     (if frame_count s \<le> 0 \<or> fps s \<le> 0
      then (case cap s of
              None \<Rightarrow> s
            | Some c \<Rightarrow>
                (let (n, c') = count_frames c 0
                 in s\<lparr>frame_count := int n, cap := Some (cap_set_pos 0 c'),
                      fps := (if fps s \<le> 0 then 30 else fps s)\<rparr>))
      else s)"

text \<open>
  Line 88, \<open>np.linspace(0, frame_count - 1, min(20, frame_count), dtype=int)\<close> for a
  positive \<open>frame_count\<close>, in exact arithmetic.
\<close>

definition sample_indices :: "int \<Rightarrow> nat list" where
  "sample_indices fc =
     (let num = min 20 fc
      in if num \<le> 0 then []
         else if num = 1 then [0]
         else map (\<lambda>k. nat ((int k * (fc - 1)) div (num - 1))) [0 ..< nat num])"

text \<open>Lines 95 to 120: seek, read, skip the frame if the read failed, else measure it.\<close>

fun sample_frames ::
  "video_externals \<Rightarrow> nat list \<Rightarrow> capture \<Rightarrow> (real \<times> real \<times> real \<times> real) list
     \<Rightarrow> capture \<times> (real \<times> real \<times> real \<times> real) list" where
  "sample_frames vx [] c acc = (c, acc)"
| "sample_frames vx (idx # rest) c acc =
     (case cap_read (cap_set_pos idx c) of
        (None, c') \<Rightarrow> sample_frames vx rest c' acc
      | (Some f, c') \<Rightarrow> sample_frames vx rest c' (acc @ [vx_metrics vx f]))"

record vsnapshot =
  avg_brightness :: npfloat
  avg_contrast :: npfloat
  avg_sharpness :: npfloat
  avg_noise :: npfloat

definition average_metrics :: "(real \<times> real \<times> real \<times> real) list \<Rightarrow> vsnapshot" where
  "average_metrics ms =
     \<lparr>avg_brightness = np_mean (map (\<lambda>(b, c, sh, n). b) ms),
      avg_contrast = np_mean (map (\<lambda>(b, c, sh, n). c) ms),
      avg_sharpness = np_mean (map (\<lambda>(b, c, sh, n). sh) ms),
      avg_noise = np_mean (map (\<lambda>(b, c, sh, n). n) ms)\<rparr>"

text \<open>
  Lines 134 to 206, one definition per rule.  The quotient \<open>target_w / self.width\<close> raises
  ZeroDivisionError on a zero width, and \<open>target_h / self.height\<close> on a zero height.
\<close>

definition upscale_rule ::
  "(int \<times> int) option \<Rightarrow> int \<Rightarrow> int \<Rightarrow> enh_params \<Rightarrow> error + enh_params" where
  "upscale_rule target w h p =
     (case target of
        Some (target_w, target_h) \<Rightarrow>
          (if w < target_w \<or> h < target_h
           then (if w = 0 \<or> h = 0 then Inl ZeroDivisionError
                 else Inr (p\<lparr>needs_upscaling := True,
                            upscale_factor := max (real_of_int target_w / real_of_int w)
                                                (real_of_int target_h / real_of_int h)\<rparr>))
           else Inr p)
      | None \<Rightarrow>
          (if w < 1280 \<or> h < 720
           then (if w < 640 then Inr (p\<lparr>needs_upscaling := True, upscale_factor := 2\<rparr>)
                 else Inr (p\<lparr>needs_upscaling := True, upscale_factor := 15 / 10\<rparr>))
           else Inr p))"

definition denoise_rule :: "vsnapshot \<Rightarrow> enh_params \<Rightarrow> enh_params" where
  "denoise_rule m p =
     (if fgt (avg_noise m) 15 then p\<lparr>denoise_strength := 10\<rparr>
      else if fgt (avg_noise m) 8 then p\<lparr>denoise_strength := 5\<rparr>
      else if fgt (avg_noise m) 4 then p\<lparr>denoise_strength := 3\<rparr>
      else p)"

definition sharpen_rule :: "vsnapshot \<Rightarrow> enh_params \<Rightarrow> enh_params" where
  "sharpen_rule m p =
     (if flt (avg_sharpness m) 100 then p\<lparr>sharpen_amount := 15 / 10\<rparr>
      else if flt (avg_sharpness m) 300 then p\<lparr>sharpen_amount := 8 / 10\<rparr>
      else if flt (avg_sharpness m) 500 then p\<lparr>sharpen_amount := 3 / 10\<rparr>
      else p)"

definition brightness_rule :: "vsnapshot \<Rightarrow> enh_params \<Rightarrow> enh_params" where
  "brightness_rule m p =
     (if flt (avg_brightness m) 80 then p\<lparr>brightness_adjust := 30\<rparr>
      else if fgt (avg_brightness m) 180 then p\<lparr>brightness_adjust := - 20\<rparr>
      else p)"

definition contrast_rule :: "vsnapshot \<Rightarrow> enh_params \<Rightarrow> enh_params" where
  "contrast_rule m p =
     (if flt (avg_contrast m) 30 then p\<lparr>contrast_adjust := 13 / 10\<rparr>
      else if flt (avg_contrast m) 50 then p\<lparr>contrast_adjust := 115 / 100\<rparr>
      else p)"

definition color_rule :: "vsnapshot \<Rightarrow> enh_params \<Rightarrow> enh_params" where
  "color_rule m p = (if flt (avg_contrast m) 40 then p\<lparr>color_enhance := True\<rparr> else p)"

definition derive_enhancement ::
  "vsnapshot \<Rightarrow> (int \<times> int) option \<Rightarrow> int \<Rightarrow> int \<Rightarrow> error + enh_params" where
  "derive_enhancement m target w h =
     (case upscale_rule target w h default_enh_params of
        Inl e \<Rightarrow> Inl e
      | Inr p \<Rightarrow>
          Inr (color_rule m (contrast_rule m (brightness_rule m
                 (sharpen_rule m (denoise_rule m p))))))"

text \<open>
  \<open>analyze_video\<close>, given the container behind \<open>self.input_file\<close>.  The capture is
  created with its cursor on the first frame.
\<close>

definition analyze_video ::
  "video_externals \<Rightarrow> video_file \<Rightarrow> enhancer \<Rightarrow> error + (enhancer \<times> bool)" where
  "analyze_video vx file s0 =
     (let c0 = \<lparr>cap_file = file, cap_pos = 0, cap_released = False\<rparr>;
          s1 = s0\<lparr>cap := Some c0\<rparr>
      in if \<not> cap_is_open c0 then Inr (s1, False)
         else
           (let s2 = recover_metadata
                       (s1\<lparr>fps := vf_fps file, frame_count := vf_frame_count file,
                           width := vf_width file, height := vf_height file\<rparr>)
            in if frame_count s2 \<le> 0 then Inr (s2, False)
               else
                 (case cap s2 of
                    None \<Rightarrow> Inl AttributeError
                  | Some c2 \<Rightarrow>
                      (let s3 = s2\<lparr>duration := (if fps s2 > 0
                                                  then real_of_int (frame_count s2) / fps s2
                                                  else 0)\<rparr>;
                           (c3, ms) = sample_frames vx (sample_indices (frame_count s3)) c2 []
                       in case derive_enhancement (average_metrics ms) (target_resolution s3)
                                 (width s3) (height s3) of
                            Inl e \<Rightarrow> Inl e
                          | Inr p \<Rightarrow>
                              Inr (s3\<lparr>enhancement_params := p,
                                       cap := Some (cap_set_pos 0 c3)\<rparr>, True)))))"

section \<open>Video: the executor\<close>

text \<open>A \<open>cv2.VideoWriter\<close>: whether it opened, what was written, whether it was released.\<close>

record writer =
  out_opened :: bool
  out_size :: "int \<times> int"
  out_fps :: real
  out_frames :: "frame list"
  out_released :: bool

text \<open>Lines 302 to 314: read, enhance and write until a read fails.\<close>

function write_frames ::
  "video_externals \<Rightarrow> enh_params \<Rightarrow> capture \<Rightarrow> frame list \<Rightarrow> capture \<times> frame list" where
  "write_frames vx p c written =
     (case cap_read c of
        (None, c') \<Rightarrow> (c', written)
      | (Some f, c') \<Rightarrow> write_frames vx p c' (written @ [enhance_frame vx p f]))"
  by pat_completeness auto
termination
  by (relation "measure (\<lambda>(vx, p, c, written). length (vf_frames (cap_file c)) - cap_pos c)")
     (auto simp: cap_read_def split: if_splits)

text \<open>
  \<open>VideoEnhancer.process\<close>, given the container and whether \<open>cv2.VideoWriter\<close> manages to
  open the output file.  The result is the enhancer, the writer if one was created, and the
  returned flag.
\<close>

definition video_process ::
  "video_externals \<Rightarrow> video_file \<Rightarrow> bool \<Rightarrow> enhancer
     \<Rightarrow> error + (enhancer \<times> writer option \<times> bool)" where
  "video_process vx file output_opens s0 =
     (case analyze_video vx file s0 of
        Inl e \<Rightarrow> Inl e
      | Inr (s1, False) \<Rightarrow> Inr (s1, None, False)
      | Inr (s1, True) \<Rightarrow>
          (let p = enhancement_params s1;
               out_width = (if needs_upscaling p
                            then \<lfloor>real_of_int (width s1) * upscale_factor p\<rfloor> else width s1);
               out_height = (if needs_upscaling p
                             then \<lfloor>real_of_int (height s1) * upscale_factor p\<rfloor> else height s1);
               out = \<lparr>out_opened = output_opens, out_size = (out_width, out_height),
                      out_fps = fps s1, out_frames = [], out_released = False\<rparr>
           in if \<not> out_opened out then Inr (s1, Some out, False)
              else
                (case cap s1 of
                   None \<Rightarrow> Inl AttributeError
                 | Some c \<Rightarrow>
                     (let (c', written) = write_frames vx p c []
                      in Inr (s1\<lparr>cap := Some (cap_release c')\<rparr>,
                              Some (out\<lparr>out_frames := written, out_released := True\<rparr>),
                              True)))))"

section \<open>Contracts and the specification's formulas\<close>

text \<open>
  The contract of the audio collaborators: a result has as many dimensions and as many
  channels as the argument (its length may differ).
\<close>

definition preserves_layout :: "(ndarray \<Rightarrow> ndarray option) \<Rightarrow> bool" where
  "preserves_layout f = (\<forall>a b. f a = Some b \<longrightarrow> chan_layout b = chan_layout a)"

definition externals_keep_layout :: "externals \<Rightarrow> bool" where
  "externals_keep_layout ext =
     ((\<forall>amount rate. preserves_layout (ext_reduce_noise ext amount rate))
      \<and> (\<forall>order cutoff. preserves_layout (ext_highpass ext order cutoff))
      \<and> (\<forall>rate target. preserves_layout (ext_resample ext rate target)))"

definition same_layout :: "cleaner \<Rightarrow> cleaner \<Rightarrow> bool" where
  "same_layout s s' =
     (map_option chan_layout (audio s') = map_option chan_layout (audio s)
      \<and> channels s' = channels s \<and> is_stereo s' = is_stereo s)"

text \<open>
  What \<open>load_audio\<close> establishes: a buffer of one or two dimensions whose channel
  count is \<open>channels\<close>, and \<open>is_stereo\<close> exactly when there are several channels.
\<close>

definition loaded_inv :: "cleaner \<Rightarrow> bool" where
  "loaded_inv s =
     (case audio s of
        None \<Rightarrow> False
      | Some a \<Rightarrow> ndim a \<noteq> 0 \<and> channels s = chan_count a \<and> is_stereo s = (1 < channels s))"

text \<open>
  The specification's brightness and contrast formula: the affine value
  \<open>alpha * x + beta\<close>, clamped to the intensity range.
\<close>

definition spec_affine :: "real \<Rightarrow> real \<Rightarrow> 8 word \<Rightarrow> real" where
  "spec_affine alpha beta x = min 255 (max 0 (alpha * real (unat x) + beta))"

section \<open>Example inputs\<close>

definition ex_externals :: externals where
  "ex_externals =
     \<lparr>ext_hf_ratio = (\<lambda>x rate. Some 0),
      ext_reduce_noise = (\<lambda>amount rate y. Some (map_arr (\<lambda>v. v * (1 - amount)) y)),
      ext_highpass = (\<lambda>order cutoff y. Some (map_arr (\<lambda>v. v / 2) y)),
      ext_resample = (\<lambda>rate target y. Some y)\<rparr>"

text \<open>A loud stereo recording of ten samples, the same in both channels.\<close>

definition ex_clipped_stereo :: ndarray where
  "ex_clipped_stereo =
     Arr2 [[1 / 10, 1 / 2, - (1 / 2), 1 / 2, - (1 / 2), 1, - 1, 1, - 1, 1],
           [1 / 10, 1 / 2, - (1 / 2), 1 / 2, - (1 / 2), 1, - 1, 1, - 1, 1]]"

definition ex_clipped_loaded :: cleaner where
  "ex_clipped_loaded = fst (load_audio (Some (ex_clipped_stereo, 44100)) (init_cleaner 48000))"

definition ex_clipped_analyzed :: cleaner where
  "ex_clipped_analyzed =
     ex_clipped_loaded\<lparr>needs_processing := True,
       processing_params := \<lparr>noise_reduction = 5 / 10, high_pass_cutoff = 80,
         normalization_target = 75 / 100, needs_limiting = True\<rparr>\<rparr>"

text \<open>A clean mono recording: a tenth of it silent, the rest at three tenths of full scale.\<close>

definition ex_clean_mono :: ndarray where
  "ex_clean_mono =
     Arr1 [0, 3 / 10, - (3 / 10), 3 / 10, - (3 / 10), 3 / 10, - (3 / 10), 3 / 10, - (3 / 10),
           3 / 10]"

text \<open>A state whose source had three channels and whose buffer is one-dimensional.\<close>

definition ex_three_channel_collapsed :: cleaner where
  "ex_three_channel_collapsed =
     (fst (load_audio (Some (Arr2 [[1 / 2, 0], [1 / 4, 0], [1 / 8, 0]], 44100))
        (init_cleaner 48000)))\<lparr>audio := Some (Arr1 [1 / 4, 0])\<rparr>"

definition ex_stereo_collapsed :: cleaner where
  "ex_stereo_collapsed =
     (fst (load_audio (Some (Arr2 [[1 / 2, 0], [1 / 4, 0]], 44100))
        (init_cleaner 48000)))\<lparr>audio := Some (Arr1 [3 / 8, 0])\<rparr>"

definition ex_quiet_stereo :: cleaner where
  "ex_quiet_stereo = (init_cleaner 48000)\<lparr>audio := Some (Arr2 [[1 / 2, - (1 / 4)], [0, 1 / 8]])\<rparr>"

definition ex_silent_stereo :: cleaner where
  "ex_silent_stereo = (init_cleaner 48000)\<lparr>audio := Some (Arr2 [[0, 0], [0, 0]])\<rparr>"

definition ex_video_externals :: video_externals where
  "ex_video_externals =
     \<lparr>vx_denoise = (\<lambda>h f. f), vx_resize = (\<lambda>w h f. f), vx_unsharp = (\<lambda>amount f. f),
      vx_saturate = (\<lambda>f. f), vx_metrics = (\<lambda>f. (100, 60, 600, 0))\<rparr>"

definition ex_frame :: frame where
  "ex_frame = [[[100, 65, 250]]]"

text \<open>A one-frame video with sound metadata, and a two-frame one that reports none.\<close>

definition ex_video :: video_file where
  "ex_video =
     \<lparr>vf_opens = True, vf_fps = 8, vf_frame_count = 1, vf_width = 1, vf_height = 1,
      vf_frames = [ex_frame]\<rparr>"

definition ex_video_no_metadata :: video_file where
  "ex_video_no_metadata =
     \<lparr>vf_opens = True, vf_fps = 0, vf_frame_count = 0, vf_width = 1, vf_height = 1,
      vf_frames = [ex_frame, ex_frame]\<rparr>"

definition ex_bright_contrast_params :: enh_params where
  "ex_bright_contrast_params =
     default_enh_params\<lparr>brightness_adjust := 30, contrast_adjust := 13 / 10\<rparr>"

section \<open>Audio: the derived parameters\<close>

lemma derive_high_pass_cutoff:
  "high_pass_cutoff (fst (derive_params m)) =
     (if fgt (noise_floor m) (1 / 100) then 80
      else if fgt (noise_floor m) (5 / 1000) then 60
      else if fgt (noise_floor m) (2 / 1000) then 40 else 0)"
  by (simp add: derive_params_def volume_rule_def high_pass_rule_def hf_rule_def snr_rule_def
      default_params_def)

lemma derive_noise_reduction:
  "noise_reduction (fst (derive_params m)) =
     (let base = (if flt (snr m) 15 then 7 / 10 else if flt (snr m) 25 then 5 / 10
                  else if flt (snr m) 40 then 3 / 10 else 0)
      in if fgt (hf_ratio m) (3 / 10) then min (base + 1 / 10) (8 / 10) else base)"
  by (simp add: derive_params_def volume_rule_def high_pass_rule_def hf_rule_def snr_rule_def
      default_params_def Let_def)

lemma derive_volume:
  "normalization_target (fst (derive_params m)) =
     (if peak m > 99 / 100 then 75 / 100 else if peak m < 5 / 10 then 8 / 10 else 85 / 100)"
  "needs_limiting (fst (derive_params m)) = (peak m > 99 / 100)"
  by (simp_all add: derive_params_def volume_rule_def high_pass_rule_def hf_rule_def snr_rule_def
      default_params_def)

lemma derive_needs_processing:
  "snd (derive_params m) =
     (flt (snr m) 40 \<or> fgt (noise_floor m) (5 / 1000) \<or> peak m > 99 / 100 \<or> peak m < 2 / 10)"
  by (auto simp add: derive_params_def volume_rule_def high_pass_rule_def hf_rule_def snr_rule_def
      default_params_def flt_def fgt_def split: option.splits)

text \<open>
  Claim C6.  Two quality snapshots that differ only in their noise floor: the high-pass
  cutoff derived from the higher noise floor is at least the one derived from the lower,
  and the cutoff is 80, 60, 40 or 0 Hz according to whether the noise floor exceeds 0.01,
  0.005, 0.002 or none of them.
\<close>

theorem high_pass_cutoff_monotone:
  assumes "noise_floor m = Some x" and "x \<le> y"
  shows "high_pass_cutoff (fst (derive_params m))
           \<le> high_pass_cutoff (fst (derive_params (m\<lparr>noise_floor := Some y\<rparr>)))
         \<and> high_pass_cutoff (fst (derive_params m)) =
             (if x > 1 / 100 then 80 else if x > 5 / 1000 then 60
              else if x > 2 / 1000 then 40 else 0)"
  using assms by (simp add: derive_high_pass_cutoff fgt_def)

theorem high_pass_cutoff_monotone_witness:
  "high_pass_cutoff (fst (derive_params \<lparr>peak = 3 / 10, noise_floor = Some (3 / 1000),
       snr = Some 50, hf_ratio = Some 0\<rparr>)) = 40
   \<and> high_pass_cutoff (fst (derive_params \<lparr>peak = 3 / 10, noise_floor = Some (7 / 1000),
       snr = Some 50, hf_ratio = Some 0\<rparr>)) = 60"
  using high_pass_cutoff_monotone [of "\<lparr>peak = 3 / 10, noise_floor = Some (3 / 1000),
       snr = Some 50, hf_ratio = Some 0\<rparr>" "3 / 1000" "7 / 1000"]
  by (simp add: derive_high_pass_cutoff fgt_def)

text \<open>
  Claim C7.  Whatever the snapshot, the derived noise reduction lies between 0 and 0.8, the
  high-pass cutoff is one of 0, 40, 60 and 80, and the normalisation target is one of 0.75,
  0.8 and 0.85, hence in the interval from 0 (excluded) to 1.
\<close>

theorem processing_params_invariant:
  "0 \<le> noise_reduction (fst (derive_params m))
   \<and> noise_reduction (fst (derive_params m)) \<le> 8 / 10
   \<and> high_pass_cutoff (fst (derive_params m)) \<in> {0, 40, 60, 80}
   \<and> normalization_target (fst (derive_params m)) \<in> {75 / 100, 8 / 10, 85 / 100}
   \<and> 0 < normalization_target (fst (derive_params m))
   \<and> normalization_target (fst (derive_params m)) \<le> 1"
  by (simp add: derive_high_pass_cutoff derive_noise_reduction derive_volume Let_def)

section \<open>Audio: normalisation and the limiter\<close>

lemma elems_map_arr: "elems (map_arr f a) = map f (elems a)"
  by (cases a) (simp_all add: map_concat)

lemma map_arr_id: "(\<And>x. x \<in> set (elems a) \<Longrightarrow> f x = x) \<Longrightarrow> map_arr f a = a"
  by (cases a) (auto intro!: map_idI)

lemma chan_layout_map_arr: "chan_layout (map_arr f a) = chan_layout a"
  by (cases a) (simp_all add: chan_layout_def)

lemma Max_abs_scaled:
  assumes "xs \<noteq> []" and "0 \<le> k"
  shows "Max (set (map abs (map (\<lambda>x. x * k) xs))) = Max (set (map abs xs)) * (k::real)"
proof -
  have "set (map abs (map (\<lambda>x. x * k) xs)) = (\<lambda>v. v * k) ` set (map abs xs)"
    using assms(2) by (auto simp: abs_mult image_iff)
  moreover have "Max ((\<lambda>v. v * k) ` set (map abs xs)) = Max (set (map abs xs)) * k"
    using assms by (intro mono_Max_commute [symmetric]) (auto simp: mono_def mult_right_mono)
  ultimately show ?thesis by simp
qed

lemma Max_abs_pos_iff:
  assumes "xs \<noteq> []"
  shows "0 < Max (set (map abs xs)) \<longleftrightarrow> (\<exists>x \<in> set xs. x \<noteq> (0::real))"
  using assms by (auto simp: Max_gr_iff)

text \<open>
  Claim C4.  For a loaded buffer and a target \<open>t\<close> with \<open>0 < t \<le> 1\<close>: if some sample is not
  zero, then after \<open>smart_normalize\<close> the largest absolute sample value over all channels is
  \<open>t\<close> (exactly, samples being reals here); if every sample is zero, \<open>smart_normalize\<close>
  changes nothing.
\<close>

theorem smart_normalize_peak:
  assumes "audio s = Some a" and "0 < t" and "t \<le> 1"
  shows "((\<exists>x \<in> set (elems a). x \<noteq> 0) \<longrightarrow>
            (\<exists>b. audio (smart_normalize t s) = Some b
                 \<and> Max (set (map abs (elems b))) = t))
         \<and> ((\<forall>x \<in> set (elems a). x = 0) \<longrightarrow> smart_normalize t s = s)"
proof (intro conjI impI)
  assume nz: "\<exists>x \<in> set (elems a). x \<noteq> 0"
  then have ne: "elems a \<noteq> []" by auto
  define pk where "pk = Max (set (map abs (elems a)))"
  have pos: "0 < pk" unfolding pk_def using nz Max_abs_pos_iff [OF ne] by simp
  have eq: "smart_normalize t s = s\<lparr>audio := Some (map_arr (\<lambda>x. x * (t / pk)) a)\<rparr>"
    using assms(1) ne pos by (simp add: smart_normalize_def pk_def Let_def)
  have "Max (set (map abs (elems (map_arr (\<lambda>x. x * (t / pk)) a)))) = pk * (t / pk)"
    unfolding elems_map_arr pk_def using ne assms(2) pos
    by (intro Max_abs_scaled) (auto simp: pk_def)
  also have "\<dots> = t" using pos by simp
  finally show "\<exists>b. audio (smart_normalize t s) = Some b \<and> Max (set (map abs (elems b))) = t"
    by (simp add: eq)
next
  assume z: "\<forall>x \<in> set (elems a). x = 0"
  show "smart_normalize t s = s"
  proof (cases "elems a = []")
    case True
    then show ?thesis using assms(1) by (simp add: smart_normalize_def)
  next
    case False
    then have "\<not> 0 < Max (set (map abs (elems a)))"
      using z Max_abs_pos_iff [OF False] by simp
    then show ?thesis using assms(1) False by (simp add: smart_normalize_def Let_def)
  qed
qed

theorem smart_normalize_peak_witness:
  "(\<exists>b. audio (smart_normalize (8 / 10) ex_quiet_stereo) = Some b
        \<and> Max (set (map abs (elems b))) = 8 / 10)
   \<and> smart_normalize (8 / 10) ex_silent_stereo = ex_silent_stereo"
  using smart_normalize_peak [of ex_quiet_stereo "Arr2 [[1 / 2, - (1 / 4)], [0, 1 / 8]]" "8 / 10"]
    smart_normalize_peak [of ex_silent_stereo "Arr2 [[0, 0], [0, 0]]" "8 / 10"]
  by (simp add: ex_quiet_stereo_def ex_silent_stereo_def)

section \<open>Audio: channel restoration\<close>

text \<open>
  Claim C1, as the code has it.  When the source had several channels and the buffer is
  one-dimensional, \<open>restore_stereo\<close> replaces the buffer by two identical copies of it, one
  per row, and changes nothing else.  The result has two channels whatever the source's
  channel count was; it has the source's channel count exactly when the source was stereo.
\<close>

theorem restore_stereo_duplicates:
  assumes "is_stereo s" and "audio s = Some (Arr1 xs)"
  shows "restore_stereo s = s\<lparr>audio := Some (Arr2 [xs, xs])\<rparr>
         \<and> chan_count (Arr2 [xs, xs]) = 2
         \<and> (\<forall>b. audio (restore_stereo s) = Some b \<longrightarrow>
               (chan_count b = channels s \<longleftrightarrow> channels s = 2))"
  using assms by (auto simp: restore_stereo_def)

theorem restore_stereo_duplicates_witness:
  "restore_stereo ex_stereo_collapsed = ex_stereo_collapsed\<lparr>audio := Some (Arr2 [[3 / 8, 0], [3 / 8, 0]])\<rparr>
   \<and> channels ex_stereo_collapsed = 2"
  using restore_stereo_duplicates [of ex_stereo_collapsed "[3 / 8, 0]"]
  by (simp add: ex_stereo_collapsed_def load_audio_def)

text \<open>
  The claim as stated fails on a source with three channels: the restored buffer has two
  channels, not three.
\<close>

theorem restore_stereo_counterexample:
  "is_stereo ex_three_channel_collapsed
   \<and> channels ex_three_channel_collapsed = 3
   \<and> audio ex_three_channel_collapsed = Some (Arr1 [1 / 4, 0])
   \<and> audio (restore_stereo ex_three_channel_collapsed) = Some (Arr2 [[1 / 4, 0], [1 / 4, 0]])
   \<and> chan_count (Arr2 [[1 / 4, 0], [1 / 4, 0]]) \<noteq> channels ex_three_channel_collapsed"
  by (simp add: ex_three_channel_collapsed_def load_audio_def restore_stereo_def)

section \<open>Audio: the limiter after normalisation\<close>

lemma clip_threshold_above_target: "75 / 100 < (10::real) powr (- (5 / 10) / 20)"
proof (rule power_less_imp_less_base [where n = 40])
  have "(10 powr (- (5 / 10) / 20)) ^ 40 = (10::real) powr (- 1)"
    by (simp add: powr_power)
  also have "\<dots> = 1 / 10" by (simp add: powr_minus_divide)
  finally have e: "(10 powr (- (5 / 10) / 20)) ^ 40 = (1 / 10 :: real)" .
  have "((75 / 100)::real) ^ 10 < 1 / 10" by (simp add: power_divide)
  moreover have "((75 / 100)::real) ^ 40 \<le> (75 / 100) ^ 10"
    by (rule power_decreasing) simp_all
  ultimately show "(75 / 100 :: real) ^ 40 < (10 powr (- (5 / 10) / 20)) ^ 40"
    unfolding e by linarith
  show "0 \<le> (10::real) powr (- (5 / 10) / 20)" by simp
qed

lemma smart_normalize_bounded:
  assumes "0 \<le> t" and "audio (smart_normalize t s) = Some b" and "x \<in> set (elems b)"
  shows "\<bar>x\<bar> \<le> t"
proof (cases "audio s")
  case None
  then show ?thesis using assms by (simp add: smart_normalize_def)
next
  case (Some a)
  show ?thesis
  proof (cases "elems a = []")
    case True
    then show ?thesis using assms Some by (simp add: smart_normalize_def)
  next
    case ne: False
    define pk where "pk = Max (set (map abs (elems a)))"
    have le: "\<bar>y\<bar> \<le> pk" if "y \<in> set (elems a)" for y
      unfolding pk_def using that by (intro Max_ge) auto
    show ?thesis
    proof (cases "0 < pk")
      case True
      then have "b = map_arr (\<lambda>x. x * (t / pk)) a"
        using assms(2) Some ne by (simp add: smart_normalize_def pk_def Let_def)
      then obtain y where y: "y \<in> set (elems a)" and x: "x = y * (t / pk)"
        using assms(3) by (auto simp: elems_map_arr)
      have "\<bar>x\<bar> = \<bar>y\<bar> / pk * t" using True assms(1) by (simp add: x abs_mult)
      also have "\<dots> \<le> 1 * t"
        using le [OF y] True assms(1) by (intro mult_right_mono) simp_all
      finally show ?thesis by simp
    next
      case False
      then have "b = a" using assms(2) Some ne by (simp add: smart_normalize_def pk_def Let_def)
      then have "\<bar>x\<bar> \<le> pk" using le assms(3) by simp
      then show ?thesis using False assms(1) by simp
    qed
  qed
qed

lemma np_clip_id: "\<bar>x\<bar> \<le> T \<Longrightarrow> np_clip (- T) T x = x"
  unfolding np_clip_def by linarith

lemma gentle_limiter_id:
  assumes "\<And>b x. audio s = Some b \<Longrightarrow> x \<in> set (elems b) \<Longrightarrow> \<bar>x\<bar> \<le> 10 powr (th / 20)"
  shows "gentle_limiter th s = s"
proof (cases "audio s")
  case None
  then show ?thesis by (simp add: gentle_limiter_def)
next
  case (Some b)
  have "map_arr (np_clip (- (10 powr (th / 20))) (10 powr (th / 20))) b = b"
    using assms [OF Some] by (intro map_arr_id np_clip_id)
  then show ?thesis using Some by (simp add: gentle_limiter_def Let_def)
qed

lemma load_audio_True:
  assumes "load_audio decoded s0 = (s1, True)"
  shows "\<exists>a rate. decoded = Some (a, rate) \<and> audio s1 = Some a \<and> sr s1 = Some rate
           \<and> analysis_audio s1 = Some (to_mono a) \<and> channels s1 = chan_count a
           \<and> is_stereo s1 = (1 < channels s1) \<and> ndim a \<noteq> 0
           \<and> target_sr s1 = target_sr s0"
  using assms by (auto simp: load_audio_def split: option.splits ndarray.splits)

lemma analyze_quality_loaded:
  assumes "audio s1 = Some a" and "analysis_audio s1 = Some x" and "sr s1 = Some rate"
    and "analyze_quality ext s1 = Inr (s2, needs)"
  shows "s2 = s1\<lparr>needs_processing := needs,
                  processing_params := fst (derive_params (measure_quality ext x rate))\<rparr>
         \<and> needs = snd (derive_params (measure_quality ext x rate))"
  using assms by (auto simp: analyze_quality_def Let_def split: if_splits prod.splits)

text \<open>
  Claim C9.  In \<open>process\<close>, when the analysis of the loaded buffer has set
  \<open>needs_limiting\<close>, the normalisation target is 0.75 and the limiter at
  \<open>10 powr (-0.5 / 20)\<close> changes nothing: every sample of the normalised buffer is at most
  0.75 in absolute value, which is below the clipping threshold.
\<close>

theorem limiter_is_identity_after_normalize:
  assumes "load_audio decoded s0 = (s1, True)"
    and "analyze_quality ext s1 = Inr (s2, needs)"
    and "needs_limiting (processing_params s2)"
  shows "normalization_target (processing_params s2) = 75 / 100
         \<and> gentle_limiter (- (5 / 10)) (after_normalize ext needs s2) = after_normalize ext needs s2
         \<and> after_limiter ext needs s2 = after_normalize ext needs s2"
proof -
  obtain a rate where l: "audio s1 = Some a" "sr s1 = Some rate"
    "analysis_audio s1 = Some (to_mono a)"
    using load_audio_True [OF assms(1)] by blast
  define m where "m = measure_quality ext (to_mono a) rate"
  have s2: "processing_params s2 = fst (derive_params m)"
    using analyze_quality_loaded [OF l(1) l(3) l(2) assms(2)] by (simp add: m_def)
  have tgt: "normalization_target (processing_params s2) = 75 / 100"
    using assms(3) unfolding s2 by (simp add: derive_volume)
  have "gentle_limiter (- (5 / 10)) (after_normalize ext needs s2) = after_normalize ext needs s2"
  proof (rule gentle_limiter_id)
    fix b x
    assume "audio (after_normalize ext needs s2) = Some b" and "x \<in> set (elems b)"
    then have "\<bar>x\<bar> \<le> 75 / 100"
      unfolding after_normalize_def tgt by (intro smart_normalize_bounded) auto
    then show "\<bar>x\<bar> \<le> 10 powr (- (5 / 10) / 20)"
      using clip_threshold_above_target by linarith
  qed
  then show ?thesis using tgt assms(3) by (simp add: after_limiter_def)
qed

section \<open>Audio: the channel layout through \<open>process\<close>\<close>

lemma those_map_Some:
  "those (map f xs) = Some ys \<Longrightarrow> list_all2 (\<lambda>x y. f x = Some y) xs ys"
  by (induction xs arbitrary: ys) (auto split: option.splits)

lemma length_concat_atleast_2d:
  "(\<And>b. b \<in> set bs \<Longrightarrow> ndim b = 1) \<Longrightarrow> length (concat (map atleast_2d bs)) = length bs"
proof (induction bs)
  case Nil
  then show ?case by simp
next
  case (Cons b bs)
  then have "ndim b = 1" by simp
  then obtain xs where "b = Arr1 xs" by (cases b) simp_all
  then show ?case using Cons by simp
qed

lemma vstack_rows: "vstack bs = Some v \<Longrightarrow> v = Arr2 (concat (map atleast_2d bs))"
  by (auto simp: vstack_def Let_def split: if_splits)

lemma same_layout_refl: "same_layout s s"
  by (simp add: same_layout_def)

lemma same_layout_trans: "same_layout s t \<Longrightarrow> same_layout t u \<Longrightarrow> same_layout s u"
  by (simp add: same_layout_def)

lemma loaded_inv_same_layout: "loaded_inv s \<Longrightarrow> same_layout s t \<Longrightarrow> loaded_inv t"
  by (auto simp: same_layout_def loaded_inv_def chan_layout_def split: option.splits)

lemma apply_channelwise_layout:
  assumes f: "preserves_layout f" and inv: "loaded_inv s"
    and r: "apply_channelwise f s = Some s'"
  shows "same_layout s s'"
proof -
  from inv obtain a where a: "audio s = Some a" and nd: "ndim a \<noteq> 0"
    and ch: "channels s = chan_count a"
    by (auto simp: loaded_inv_def split: option.splits)
  show ?thesis
  proof (cases "channels s \<le> 1")
    case True
    then obtain b where "f a = Some b" and "s' = s\<lparr>audio := Some b\<rparr>"
      using r a by (auto simp: apply_channelwise_def split: option.splits)
    then show ?thesis using f a by (simp add: preserves_layout_def same_layout_def)
  next
    case False
    then obtain rows where rows: "a = Arr2 rows" using ch by (cases a) simp_all
    from r a False rows obtain bs v where bs: "those (map f (map Arr1 rows)) = Some bs"
      and v: "vstack bs = Some v" and s': "s' = s\<lparr>audio := Some v\<rparr>"
      by (auto simp: apply_channelwise_def split: option.splits)
    have l2: "list_all2 (\<lambda>x y. f x = Some y) (map Arr1 rows) bs"
      using those_map_Some [OF bs] .
    then have len: "length bs = length rows" by (auto dest: list_all2_lengthD)
    have "ndim b = 1" if "b \<in> set bs" for b
    proof -
      from that obtain i where i: "i < length bs" and b: "b = bs ! i"
        by (auto simp: in_set_conv_nth)
      then have "f (Arr1 (rows ! i)) = Some b"
        using l2 len by (simp add: list_all2_conv_all_nth)
      then have "chan_layout b = chan_layout (Arr1 (rows ! i))"
        using f by (simp add: preserves_layout_def)
      then show ?thesis by (simp add: chan_layout_def)
    qed
    then have "length (concat (map atleast_2d bs)) = length rows"
      using length_concat_atleast_2d [of bs] len by simp
    then have "chan_layout v = chan_layout a"
      using vstack_rows [OF v] rows by (simp add: chan_layout_def)
    then show ?thesis using s' a by (simp add: same_layout_def)
  qed
qed

lemma adaptive_noise_reduction_layout:
  assumes "externals_keep_layout ext" and "loaded_inv s"
  shows "same_layout s (adaptive_noise_reduction ext amount s)"
proof -
  have "preserves_layout (ext_reduce_noise ext amount (sr s))"
    using assms(1) by (simp add: externals_keep_layout_def)
  then show ?thesis
    using apply_channelwise_layout [OF _ assms(2)]
    by (auto simp: adaptive_noise_reduction_def same_layout_refl split: option.splits)
qed

lemma adaptive_high_pass_layout:
  assumes "externals_keep_layout ext" and "loaded_inv s"
  shows "same_layout s (adaptive_high_pass ext cutoff s)"
proof -
  have "preserves_layout (ext_highpass ext order c)" for order c
    using assms(1) by (simp add: externals_keep_layout_def)
  then show ?thesis
    using apply_channelwise_layout [OF _ assms(2)]
    by (auto simp: adaptive_high_pass_def same_layout_refl Let_def split: option.splits)
qed

lemma smart_normalize_layout: "same_layout s (smart_normalize t s)"
  by (auto simp: smart_normalize_def same_layout_def chan_layout_map_arr Let_def
      split: option.splits)

lemma gentle_limiter_layout: "same_layout s (gentle_limiter th s)"
  by (auto simp: gentle_limiter_def same_layout_def chan_layout_map_arr Let_def
      split: option.splits)

lemma resample_layout:
  assumes "externals_keep_layout ext" and "resample_if_needed ext s = Inr s'"
  shows "same_layout s s'"
proof -
  have "preserves_layout (ext_resample ext r t)" for r t
    using assms(1) by (simp add: externals_keep_layout_def)
  then show ?thesis
    using assms(2)
    by (auto simp: resample_if_needed_def same_layout_def preserves_layout_def
        split: option.splits if_splits)
qed

lemma restore_stereo_noop: "loaded_inv s \<Longrightarrow> restore_stereo s = s"
proof -
  assume inv: "loaded_inv s"
  then obtain a where a: "audio s = Some a" and ch: "channels s = chan_count a"
    and st: "is_stereo s = (1 < channels s)"
    by (auto simp: loaded_inv_def split: option.splits)
  show ?thesis
  proof (cases "is_stereo s")
    case False
    then show ?thesis by (simp add: restore_stereo_def)
  next
    case True
    then obtain rows where "a = Arr2 rows" using st ch by (cases a) simp_all
    then show ?thesis using a by (simp add: restore_stereo_def)
  qed
qed

lemma load_audio_inv: "load_audio decoded s0 = (s1, True) \<Longrightarrow> loaded_inv s1"
  using load_audio_True [of decoded s0 s1] by (auto simp: loaded_inv_def)

lemma analyze_quality_layout:
  "analyze_quality ext s1 = Inr (s2, needs) \<Longrightarrow> same_layout s1 s2"
  by (auto simp: analyze_quality_def same_layout_def Let_def
      split: option.splits if_splits prod.splits)

text \<open>
  Claim C10.  Provided the noise reducer, the filter and the resampler return arrays of the
  layout they were given, every stage of \<open>process\<close> after loading (noise reduction,
  high-pass, normalisation, limiting, resampling) leaves the number of dimensions and the
  number of channels of the loaded buffer unchanged, and \<open>restore_stereo\<close> then changes
  nothing: its duplication branch is not taken.
\<close>

theorem process_preserves_layout:
  assumes ext: "externals_keep_layout ext"
    and ld: "load_audio decoded s0 = (s1, True)"
    and an: "analyze_quality ext s1 = Inr (s2, needs)"
  shows "same_layout s1 (after_noise_reduction ext needs s2)
         \<and> same_layout s1 (after_high_pass ext needs s2)
         \<and> same_layout s1 (after_normalize ext needs s2)
         \<and> same_layout s1 (after_limiter ext needs s2)
         \<and> (\<forall>s6. resample_if_needed ext (after_limiter ext needs s2) = Inr s6 \<longrightarrow>
               same_layout s1 s6 \<and> restore_stereo s6 = s6
               \<and> process ext decoded s0 = Inr (s6, True))"
proof -
  have i1: "loaded_inv s1" using ld by (rule load_audio_inv)
  have l2: "same_layout s1 s2" using an by (rule analyze_quality_layout)
  have i2: "loaded_inv s2" using i1 l2 by (rule loaded_inv_same_layout)
  have "same_layout s2 (after_noise_reduction ext needs s2)"
    using adaptive_noise_reduction_layout [OF ext i2]
    by (cases needs) (simp_all add: after_noise_reduction_def same_layout_refl)
  then have l3: "same_layout s1 (after_noise_reduction ext needs s2)"
    using l2 same_layout_trans by blast
  have i3: "loaded_inv (after_noise_reduction ext needs s2)"
    using i1 l3 by (rule loaded_inv_same_layout)
  have "same_layout (after_noise_reduction ext needs s2) (after_high_pass ext needs s2)"
    using adaptive_high_pass_layout [OF ext i3]
    by (cases needs) (simp_all add: after_high_pass_def same_layout_refl Let_def)
  then have l4: "same_layout s1 (after_high_pass ext needs s2)"
    using l3 same_layout_trans by blast
  have l5: "same_layout s1 (after_normalize ext needs s2)"
    unfolding after_normalize_def using l4 smart_normalize_layout same_layout_trans by blast
  have "same_layout (after_normalize ext needs s2) (after_limiter ext needs s2)"
    by (simp add: after_limiter_def same_layout_refl gentle_limiter_layout)
  then have l6: "same_layout s1 (after_limiter ext needs s2)"
    using l5 same_layout_trans by blast
  have l7: "same_layout s1 s6 \<and> restore_stereo s6 = s6 \<and> process ext decoded s0 = Inr (s6, True)"
    if r: "resample_if_needed ext (after_limiter ext needs s2) = Inr s6" for s6
  proof -
    have s: "same_layout s1 s6" using l6 resample_layout [OF ext r] same_layout_trans by blast
    then have "loaded_inv s6" using i1 loaded_inv_same_layout by blast
    then have "restore_stereo s6 = s6" by (rule restore_stereo_noop)
    then show ?thesis using s r ld an by (simp add: process_def)
  qed
  show ?thesis using l3 l4 l5 l6 l7 by blast
qed

section \<open>Audio: the examples, evaluated\<close>

lemma ex_clipped_load:
  "load_audio (Some (ex_clipped_stereo, 44100)) (init_cleaner 48000) = (ex_clipped_loaded, True)"
  by (simp add: ex_clipped_loaded_def load_audio_def ex_clipped_stereo_def)

lemma ex_clipped_mono:
  "to_mono ex_clipped_stereo = [1 / 10, 1 / 2, - (1 / 2), 1 / 2, - (1 / 2), 1, - 1, 1, - 1, 1]"
  by (simp add: to_mono_def ex_clipped_stereo_def upt_rec [of 0] upt_rec [of "Suc _"] nth_Cons')

lemma ex_clipped_fields:
  "audio ex_clipped_loaded = Some ex_clipped_stereo"
  "analysis_audio ex_clipped_loaded = Some (to_mono ex_clipped_stereo)"
  "sr ex_clipped_loaded = Some 44100"
  by (simp_all add: ex_clipped_loaded_def load_audio_def ex_clipped_stereo_def)

lemma ex_clipped_metrics:
  "measure_quality ex_externals (to_mono ex_clipped_stereo) 44100 =
     \<lparr>peak = 1, noise_floor = Some (1 / 10), snr = Some 20, hf_ratio = Some 0\<rparr>"
  unfolding ex_clipped_mono
  by (simp add: measure_quality_def Let_def np_mean_def snr_db_def fgt_def ex_externals_def)

lemma ex_clipped_analyze:
  "analyze_quality ex_externals ex_clipped_loaded = Inr (ex_clipped_analyzed, True)"
proof -
  have "derive_params \<lparr>peak = 1, noise_floor = Some (1 / 10), snr = Some 20, hf_ratio = Some 0\<rparr>
        = (\<lparr>noise_reduction = 5 / 10, high_pass_cutoff = 80,
             normalization_target = 75 / 100, needs_limiting = True\<rparr>, True)"
    by (simp add: derive_params_def volume_rule_def high_pass_rule_def hf_rule_def snr_rule_def
        default_params_def flt_def fgt_def)
  moreover have "to_mono ex_clipped_stereo \<noteq> []" by (simp add: ex_clipped_mono)
  ultimately show ?thesis
    by (simp add: analyze_quality_def ex_clipped_fields ex_clipped_metrics
        ex_clipped_analyzed_def)
qed

theorem limiter_is_identity_after_normalize_witness:
  "needs_limiting (processing_params ex_clipped_analyzed)
   \<and> normalization_target (processing_params ex_clipped_analyzed) = 75 / 100
   \<and> after_limiter ex_externals True ex_clipped_analyzed
       = after_normalize ex_externals True ex_clipped_analyzed"
proof -
  have h: "needs_limiting (processing_params ex_clipped_analyzed)"
    by (simp add: ex_clipped_analyzed_def)
  show ?thesis
    using limiter_is_identity_after_normalize [OF ex_clipped_load ex_clipped_analyze h] h
    by simp
qed

lemma ex_externals_keep_layout: "externals_keep_layout ex_externals"
  by (simp add: externals_keep_layout_def preserves_layout_def ex_externals_def
      chan_layout_map_arr)

lemma ex_resample_returns: "\<exists>s6. resample_if_needed ex_externals s = Inr s6"
  by (simp add: resample_if_needed_def ex_externals_def split: option.splits)

theorem process_preserves_layout_witness:
  "same_layout ex_clipped_loaded (after_limiter ex_externals True ex_clipped_analyzed)
   \<and> (\<exists>s6. process ex_externals (Some (ex_clipped_stereo, 44100)) (init_cleaner 48000)
              = Inr (s6, True)
           \<and> same_layout ex_clipped_loaded s6 \<and> restore_stereo s6 = s6)"
proof -
  note t = process_preserves_layout [OF ex_externals_keep_layout ex_clipped_load ex_clipped_analyze]
  obtain s6 where r: "resample_if_needed ex_externals
      (after_limiter ex_externals True ex_clipped_analyzed) = Inr s6"
    using ex_resample_returns by blast
  show ?thesis using t r by blast
qed

section \<open>Audio: what \<open>analyze_quality\<close> returns\<close>

text \<open>
  Claim C8.  \<open>analyze_quality\<close> returns \<open>False\<close> when no buffer is loaded, and it also
  returns \<open>False\<close> on some loaded buffer whose metrics call for no processing (signal to
  noise ratio not below 40, noise floor not above 0.005, peak at least 0.2): the returned
  flag alone does not tell a failed analysis from clean audio.
\<close>

theorem analyze_quality_false_is_ambiguous:
  "analyze_quality ext (init_cleaner t) = Inr (init_cleaner t, False)
   \<and> (\<exists>a rate s1 s2.
         load_audio (Some (a, rate)) (init_cleaner t) = (s1, True)
         \<and> analyze_quality ext s1 = Inr (s2, False)
         \<and> \<not> flt (snr (measure_quality ext (to_mono a) rate)) 40
         \<and> \<not> fgt (noise_floor (measure_quality ext (to_mono a) rate)) (5 / 1000)
         \<and> 2 / 10 \<le> peak (measure_quality ext (to_mono a) rate))"
proof
  show "analyze_quality ext (init_cleaner t) = Inr (init_cleaner t, False)"
    by (simp add: analyze_quality_def init_cleaner_def)
next
  let ?s1 = "fst (load_audio (Some (ex_clean_mono, 44100)) (init_cleaner t))"
  let ?m = "measure_quality ext (to_mono ex_clean_mono) 44100"
  have mono: "to_mono ex_clean_mono =
      [0, 3 / 10, - (3 / 10), 3 / 10, - (3 / 10), 3 / 10, - (3 / 10), 3 / 10, - (3 / 10), 3 / 10]"
    by (simp add: to_mono_def ex_clean_mono_def)
  have ld: "load_audio (Some (ex_clean_mono, 44100)) (init_cleaner t) = (?s1, True)"
    by (simp add: load_audio_def ex_clean_mono_def)
  have m: "peak ?m = 3 / 10" "noise_floor ?m = Some 0" "snr ?m = Some 100"
    unfolding mono by (simp_all add: measure_quality_def Let_def np_mean_def snr_db_def fgt_def)
  have np: "snd (derive_params ?m) = False"
    by (simp add: derive_needs_processing m flt_def fgt_def)
  have an: "analyze_quality ext ?s1
      = Inr (?s1\<lparr>needs_processing := False, processing_params := fst (derive_params ?m)\<rparr>, False)"
    using np mono by (simp add: analyze_quality_def load_audio_def ex_clean_mono_def
        case_prod_beta)
  show "\<exists>a rate s1 s2.
         load_audio (Some (a, rate)) (init_cleaner t) = (s1, True)
         \<and> analyze_quality ext s1 = Inr (s2, False)
         \<and> \<not> flt (snr (measure_quality ext (to_mono a) rate)) 40
         \<and> \<not> fgt (noise_floor (measure_quality ext (to_mono a) rate)) (5 / 1000)
         \<and> 2 / 10 \<le> peak (measure_quality ext (to_mono a) rate)"
    using ld an m by (intro exI [of _ ex_clean_mono] exI [of _ 44100] exI [of _ ?s1] exI)
      (auto simp: flt_def fgt_def)
qed

section \<open>Video: brightness and contrast\<close>

lemma cvRound_of_int: "cvRound (of_int n) = n"
  by (simp add: cvRound_def)

lemma cvRound_nonneg: "0 \<le> r \<Longrightarrow> 0 \<le> cvRound r"
  by (auto simp: cvRound_def Let_def)

lemma f32_zero: "f32 0 = 0"
  by (simp add: f32_def)

lemma f32_nonneg: "0 \<le> r \<Longrightarrow> 0 \<le> f32 r"
  by (auto simp: f32_def Let_def intro!: mult_nonneg_nonneg cvRound_nonneg)

lemma f32_binade:
  assumes "(2::real) ^ e \<le> \<bar>r\<bar>" and "\<bar>r\<bar> < 2 ^ (e + 1)" and "e \<le> 23"
  shows "f32 r = real_of_int (cvRound (r * 2 ^ (23 - e))) / 2 ^ (23 - e)"
proof -
  have "(0::real) < 2 ^ e" by simp
  then have pos: "0 < \<bar>r\<bar>" using assms(1) by linarith
  have "(2::real) powr real_of_int (int e) = 2 ^ e"
    and "(2::real) powr real_of_int (int e + 1) = 2 ^ (e + 1)"
    using powr_realpow [of 2 e] powr_realpow [of 2 "e + 1"] by (simp_all add: add.commute)
  then have "(2::real) powr real_of_int (int e) \<le> \<bar>r\<bar>"
    and "\<bar>r\<bar> < 2 powr real_of_int (int e + 1)"
    using assms(1,2) by simp_all
  then have fl: "\<lfloor>log 2 \<bar>r\<bar>\<rfloor> = int e"
    using floor_log_eq_powr_iff [of "\<bar>r\<bar>" 2 "int e"] pos by simp
  have "real e - 23 = - real (23 - e)" using assms(3) by simp
  then have "(2::real) powr (real e - 23) = 1 / 2 powr real (23 - e)"
    by (simp only: powr_minus_divide)
  then have ulp: "(2::real) powr (real e - 23) = 1 / 2 ^ (23 - e)"
    by (simp only: powr_realpow zero_less_numeral)
  have "f32 r = real_of_int (cvRound (r / 2 powr (real e - 23))) * 2 powr (real e - 23)"
    using pos by (simp add: f32_def fl Let_def)
  then show ?thesis unfolding ulp by simp
qed

lemma f32_of_int:
  assumes "\<bar>n\<bar> < 2 ^ 24"
  shows "f32 (of_int n) = of_int n"
proof (cases "n = 0")
  case True
  then show ?thesis by (simp add: f32_zero)
next
  case False
  then have "1 \<le> nat \<bar>n\<bar>" by simp
  from ex_power_ivl1 [OF order_refl this]
  obtain e where e: "2 ^ e \<le> nat \<bar>n\<bar>" "nat \<bar>n\<bar> < 2 ^ (e + 1)" by blast
  have "nat \<bar>n\<bar> < 2 ^ 24" using assms by (simp add: nat_less_iff)
  with e(1) have "(2::nat) ^ e < 2 ^ 24" by (rule le_less_trans)
  then have "e < 24" by (rule power_less_imp_less_exp [rotated]) simp
  then have e23: "e \<le> 23" by simp
  have r: "\<bar>real_of_int n\<bar> = real (nat \<bar>n\<bar>)" by simp
  have "real (2 ^ e) \<le> real (nat \<bar>n\<bar>)" using e(1) by (rule of_nat_mono)
  moreover have "real (nat \<bar>n\<bar>) < real (2 ^ (e + 1))"
    using e(2) by (simp only: of_nat_less_iff)
  ultimately have b: "(2::real) ^ e \<le> \<bar>real_of_int n\<bar>" "\<bar>real_of_int n\<bar> < 2 ^ (e + 1)"
    unfolding r by simp_all
  have "real_of_int n * 2 ^ (23 - e) = real_of_int (n * 2 ^ (23 - e))" by simp
  then have "cvRound (real_of_int n * 2 ^ (23 - e)) = n * 2 ^ (23 - e)"
    by (simp only: cvRound_of_int)
  then show ?thesis
    unfolding f32_binade [OF b e23] by simp
qed

lemma scale_abs_px_brightness:
  assumes "0 \<le> int (unat x) + b" and "\<bar>b\<bar> < 2 ^ 23"
  shows "scale_abs_px 1 (real_of_int b) x = saturate_u8 (int (unat x) + b)"
proof -
  define n where "n = unat x"
  have "n < 2 ^ 8" unfolding n_def using unsigned_less [of x, where 'a = nat] by simp
  then have small: "\<bar>int n + b\<bar> < 2 ^ 24" using assms(2) by simp
  have one: "f32 1 = 1" using f32_of_int [of 1] by simp
  have b: "f32 (real_of_int b) = real_of_int b"
    using assms(2) by (intro f32_of_int) simp
  have "f32 (real n * f32 1 + f32 (real_of_int b)) = f32 (real_of_int (int n + b))"
    by (simp add: one b)
  also have "\<dots> = real_of_int (int n + b)" using small by (rule f32_of_int)
  finally have eq: "f32 (real n * f32 1 + f32 (real_of_int b)) = real_of_int (int n + b)" .
  have "0 \<le> int n + b" using assms(1) by (simp only: n_def)
  then have "\<bar>f32 (real n * f32 1 + f32 (real_of_int b))\<bar> = real_of_int (int n + b)"
    unfolding eq by simp
  then show ?thesis
    unfolding scale_abs_px_def n_def [symmetric] by (simp only: cvRound_of_int)
qed

lemma scale_abs_px_contrast:
  assumes "0 \<le> alpha"
  shows "scale_abs_px alpha 0 y = saturate_u8 (cvRound (f32 (real (unat y) * f32 alpha)))"
proof -
  define n where "n = unat y"
  have "0 \<le> f32 (real n * f32 alpha)"
    using assms by (intro f32_nonneg mult_nonneg_nonneg) simp_all
  then have "\<bar>f32 (real n * f32 alpha + f32 0)\<bar> = f32 (real n * f32 alpha)"
    by (simp add: f32_zero)
  then show ?thesis unfolding scale_abs_px_def n_def [symmetric] by simp
qed

lemma nth_map3:
  assumes "i < length f" and "j < length (f ! i)" and "k < length (f ! i ! j)"
  shows "map (map (map g)) f ! i ! j ! k = g (f ! i ! j ! k)"
  using assms by simp

lemma brightness_contrast_map:
  "brightness_contrast p f =
     map (map (map (\<lambda>x.
       (if contrast_adjust p \<noteq> 1 then scale_abs_px (contrast_adjust p) 0 else (\<lambda>y. y))
         ((if brightness_adjust p \<noteq> 0
           then scale_abs_px 1 (real_of_int (brightness_adjust p)) else (\<lambda>y. y)) x)))) f"
  by (simp add: brightness_contrast_def brightness_stage_def contrast_stage_def
      convertScaleAbs_def comp_def)

text \<open>
  Claim C2, as the code has it.  For a non-negative contrast factor \<open>alpha\<close> and an
  integer brightness offset \<open>beta\<close> of magnitude below \<open>2 ^ 23\<close>, the stage keeps the shape
  of the frame, and at every position whose intensity \<open>x\<close> has \<open>x + beta \<ge> 0\<close>, whatever
  the other intensities of the frame are: the brightness pass (run when \<open>beta \<noteq> 0\<close>) yields
  \<open>x + beta\<close> clamped to 0..255, and the contrast pass (run when \<open>alpha \<noteq> 1\<close>) then yields
  the single-precision product of that value and \<open>alpha\<close>, rounded to the nearest integer
  (a tie to the even one) and clamped to 0..255.  The two passes compose to
  \<open>alpha * (x + beta)\<close>, with a clamp in between.
\<close>

theorem brightness_contrast_two_pass:
  assumes "0 \<le> contrast_adjust p" and "\<bar>brightness_adjust p\<bar> < 2 ^ 23"
  shows "length (brightness_contrast p f) = length f
         \<and> (\<forall>i < length f.
               length (brightness_contrast p f ! i) = length (f ! i)
               \<and> (\<forall>j < length (f ! i).
                     length (brightness_contrast p f ! i ! j) = length (f ! i ! j)
                     \<and> (\<forall>k < length (f ! i ! j).
                           0 \<le> int (unat (f ! i ! j ! k)) + brightness_adjust p \<longrightarrow>
                           brightness_contrast p f ! i ! j ! k =
                             (let y = (if brightness_adjust p \<noteq> 0
                                       then saturate_u8 (int (unat (f ! i ! j ! k))
                                              + brightness_adjust p)
                                       else f ! i ! j ! k)
                              in if contrast_adjust p \<noteq> 1
                                 then saturate_u8 (cvRound (f32 (real (unat y)
                                        * f32 (contrast_adjust p))))
                                 else y))))"
proof -
  have px: "(if contrast_adjust p \<noteq> 1 then scale_abs_px (contrast_adjust p) 0 else (\<lambda>y. y))
        ((if brightness_adjust p \<noteq> 0
          then scale_abs_px 1 (real_of_int (brightness_adjust p)) else (\<lambda>y. y)) x)
      = (let y = (if brightness_adjust p \<noteq> 0
                  then saturate_u8 (int (unat x) + brightness_adjust p) else x)
         in if contrast_adjust p \<noteq> 1
            then saturate_u8 (cvRound (f32 (real (unat y) * f32 (contrast_adjust p))))
            else y)"
    if "0 \<le> int (unat x) + brightness_adjust p" for x
    using scale_abs_px_brightness [OF that assms(2)] scale_abs_px_contrast [OF assms(1)]
    by (simp add: Let_def)
  show ?thesis
    unfolding brightness_contrast_map using px by (simp add: Let_def)
qed

text \<open>
  The examples in single precision.  \<open>1.3\<close> is cast to \<open>5452595 / 4194304\<close>, a little
  below it, so that the products with 95, 175 and 195, which are ties in exact arithmetic
  (123.5, 227.5 and 253.5), round down to 123, 227 and 253.
\<close>

lemma ex_f32_alpha: "f32 (13 / 10) = 5452595 / 4194304"
  by (subst f32_binade [where e = 0]) (simp_all add: cvRound_def Let_def)

lemma ex_f32_products:
  "f32 (354418675 / 2097152) = 169"
  "f32 (517996525 / 4194304) = 16187391 / 131072"
  "f32 (1390411725 / 4194304) = 663 / 2"
  by (subst f32_binade [where e = 7], simp_all add: cvRound_def Let_def,
      subst f32_binade [where e = 6], simp_all add: cvRound_def Let_def,
      subst f32_binade [where e = 8], simp_all add: cvRound_def Let_def)

lemma ex_f32_scaled:
  "f32 (130 * f32 (13 / 10)) = 169"
  "f32 (95 * f32 (13 / 10)) = 16187391 / 131072"
  "f32 (255 * f32 (13 / 10)) = 663 / 2"
  by (simp_all add: ex_f32_alpha ex_f32_products)

lemma ex_f32_ties:
  "f32 (954204125 / 4194304) = 14909439 / 65536"
  "f32 (1063256025 / 4194304) = 16613375 / 65536"
  by (subst f32_binade [where e = 7], simp_all add: cvRound_def Let_def)+

lemma ex_px_bright:
  "scale_abs_px 1 30 100 = 130" "scale_abs_px 1 30 65 = 95" "scale_abs_px 1 30 250 = 255"
  using scale_abs_px_brightness [of 100 30] scale_abs_px_brightness [of 65 30]
    scale_abs_px_brightness [of 250 30]
  by (simp_all add: saturate_u8_def)

lemma ex_px_contrast:
  "scale_abs_px (13 / 10) 0 130 = 169" "scale_abs_px (13 / 10) 0 95 = 123"
  "scale_abs_px (13 / 10) 0 255 = 255"
  using scale_abs_px_contrast [of "13 / 10" 130] scale_abs_px_contrast [of "13 / 10" 95]
    scale_abs_px_contrast [of "13 / 10" 255]
  by (simp_all add: ex_f32_alpha ex_f32_products cvRound_def saturate_u8_def Let_def)

lemma ex_px_contrast_ties:
  "scale_abs_px (13 / 10) 0 175 = 227" "scale_abs_px (13 / 10) 0 195 = 253"
  using scale_abs_px_contrast [of "13 / 10" 175] scale_abs_px_contrast [of "13 / 10" 195]
  by (simp_all add: ex_f32_alpha ex_f32_ties cvRound_def saturate_u8_def Let_def)

lemma ex_bc: "brightness_contrast ex_bright_contrast_params ex_frame = [[[169, 123, 255]]]"
  by (simp add: brightness_contrast_def brightness_stage_def contrast_stage_def
      ex_bright_contrast_params_def default_enh_params_def convertScaleAbs_def
      ex_px_bright ex_px_contrast ex_frame_def)

theorem brightness_contrast_two_pass_witness:
  "0 \<le> contrast_adjust ex_bright_contrast_params
   \<and> \<bar>brightness_adjust ex_bright_contrast_params\<bar> < 2 ^ 23
   \<and> 0 \<le> int (unat (ex_frame ! 0 ! 0 ! 1)) + brightness_adjust ex_bright_contrast_params
   \<and> brightness_contrast ex_bright_contrast_params ex_frame ! 0 ! 0 ! 1
       = saturate_u8 (cvRound (f32 (real (unat (saturate_u8 (int (unat (65 :: 8 word)) + 30)))
           * f32 (13 / 10))))
   \<and> brightness_contrast ex_bright_contrast_params ex_frame = [[[169, 123, 255]]]"
proof -
  have h: "0 \<le> contrast_adjust ex_bright_contrast_params"
    "\<bar>brightness_adjust ex_bright_contrast_params\<bar> < 2 ^ 23"
    by (simp_all add: ex_bright_contrast_params_def default_enh_params_def)
  have len: "0 < length ex_frame" "0 < length (ex_frame ! 0)" "1 < length (ex_frame ! 0 ! 0)"
    and px: "ex_frame ! 0 ! 0 ! 1 = 65"
    by (simp_all add: ex_frame_def)
  have b: "brightness_adjust ex_bright_contrast_params = 30"
    and c: "contrast_adjust ex_bright_contrast_params = 13 / 10"
    by (simp_all add: ex_bright_contrast_params_def default_enh_params_def)
  have nn: "0 \<le> int (unat (ex_frame ! 0 ! 0 ! 1)) + brightness_adjust ex_bright_contrast_params"
    by (simp add: px b)
  from brightness_contrast_two_pass [OF h, of ex_frame] len nn
  have "brightness_contrast ex_bright_contrast_params ex_frame ! 0 ! 0 ! 1
      = (let y = (if brightness_adjust ex_bright_contrast_params \<noteq> 0
                  then saturate_u8 (int (unat (ex_frame ! 0 ! 0 ! 1))
                         + brightness_adjust ex_bright_contrast_params)
                  else ex_frame ! 0 ! 0 ! 1)
         in if contrast_adjust ex_bright_contrast_params \<noteq> 1
            then saturate_u8 (cvRound (f32 (real (unat y)
                   * f32 (contrast_adjust ex_bright_contrast_params))))
            else y)"
    by blast
  then have "brightness_contrast ex_bright_contrast_params ex_frame ! 0 ! 0 ! 1
      = saturate_u8 (cvRound (f32 (real (unat (saturate_u8 (int (unat (65 :: 8 word)) + 30)))
          * f32 (13 / 10))))"
    unfolding px b c by (simp add: Let_def)
  then show ?thesis using h nn ex_bc by blast
qed

text \<open>
  The claim as stated fails when both parameters differ from the identity: with
  \<open>alpha = 1.3\<close> and \<open>beta = 30\<close> the intensity 100 becomes 169, which is
  \<open>1.3 * (100 + 30)\<close>, where the affine value \<open>1.3 * 100 + 30\<close> is 160.
\<close>

theorem brightness_contrast_counterexample:
  "brightness_contrast ex_bright_contrast_params ex_frame = [[[169, 123, 255]]]
   \<and> ex_frame ! 0 ! 0 ! 0 = 100
   \<and> spec_affine (contrast_adjust ex_bright_contrast_params)
        (real_of_int (brightness_adjust ex_bright_contrast_params)) 100 = 160
   \<and> real (unat (169 :: 8 word)) \<noteq> 160"
proof (intro conjI)
  show "brightness_contrast ex_bright_contrast_params ex_frame = [[[169, 123, 255]]]"
    by (rule ex_bc)
  show "ex_frame ! 0 ! 0 ! 0 = 100" by (simp add: ex_frame_def)
  show "spec_affine (contrast_adjust ex_bright_contrast_params)
          (real_of_int (brightness_adjust ex_bright_contrast_params)) 100 = 160"
    by (simp add: spec_affine_def ex_bright_contrast_params_def default_enh_params_def)
  show "real (unat (169 :: 8 word)) \<noteq> 160" by simp
qed

section \<open>Video: metadata recovery in \<open>analyze_video\<close>\<close>

lemma count_frames_open:
  "cap_is_open c \<Longrightarrow>
   count_frames c n =
     (n + (length (vf_frames (cap_file c)) - cap_pos c),
      c\<lparr>cap_pos := max (cap_pos c) (length (vf_frames (cap_file c)))\<rparr>)"
proof (induction c n rule: count_frames.induct)
  case (1 c n)
  show ?case
  proof (cases "cap_pos c < length (vf_frames (cap_file c))")
    case True
    then have rd: "cap_read c = (Some (vf_frames (cap_file c) ! cap_pos c), c\<lparr>cap_pos := cap_pos c + 1\<rparr>)"
      using "1.prems" by (simp add: cap_read_def)
    have op: "cap_is_open (c\<lparr>cap_pos := cap_pos c + 1\<rparr>)"
      using "1.prems" by (simp add: cap_is_open_def)
    have "count_frames c n = count_frames (c\<lparr>cap_pos := cap_pos c + 1\<rparr>) (n + 1)"
      by (subst count_frames.simps) (simp add: rd)
    also have "\<dots> = (n + (length (vf_frames (cap_file c)) - cap_pos c),
        c\<lparr>cap_pos := max (cap_pos c) (length (vf_frames (cap_file c)))\<rparr>)"
      using "1.IH" [OF rd [symmetric] refl op] True by (simp add: max_def)
    finally show ?thesis .
  next
    case False
    then have "cap_read c = (None, c)" by (simp add: cap_read_def)
    then have "count_frames c n = (n, c)" by (subst count_frames.simps) simp
    then show ?thesis using False by (simp add: max_def)
  qed
qed

lemma sample_frames_capture:
  "cap_file (fst (sample_frames vx idxs c acc)) = cap_file c
   \<and> cap_released (fst (sample_frames vx idxs c acc)) = cap_released c"
  by (induction idxs arbitrary: c acc)
     (auto simp: cap_read_def cap_set_pos_def cap_is_open_def split: prod.splits option.splits)

lemma recover_metadata_eq:
  assumes "cap s = Some c" and "cap_is_open c" and "cap_pos c = 0"
    and "frame_count s \<le> 0 \<or> fps s \<le> 0"
  shows "recover_metadata s =
           s\<lparr>frame_count := int (length (vf_frames (cap_file c))), cap := Some c,
               fps := (if fps s \<le> 0 then 30 else fps s)\<rparr>"
proof -
  have "count_frames c 0 =
      (length (vf_frames (cap_file c)), c\<lparr>cap_pos := length (vf_frames (cap_file c))\<rparr>)"
    using count_frames_open [OF assms(2), of 0] assms(3) by simp
  moreover have "c\<lparr>cap_pos := 0\<rparr> = c" using assms(3) by simp
  ultimately show ?thesis
    using assms(1,4) by (simp add: recover_metadata_def cap_set_pos_def)
qed

lemma derive_enhancement_error:
  "derive_enhancement m t w h = Inl e \<Longrightarrow> e = ZeroDivisionError \<and> (w = 0 \<or> h = 0)"
  by (auto simp: derive_enhancement_def upscale_rule_def
      split: option.splits if_splits sum.splits prod.splits)

text \<open>
  Claim C5.  For a video that opens and whose container reports a frame count or a frame
  rate that is not positive: the counting loop reads every frame and returns their number;
  whenever \<open>analyze_video\<close> returns, the frame count is that number, the frame rate is
  30 if the reported one was not positive and the reported one otherwise, and the read
  cursor is on the first frame; it returns \<open>False\<close> exactly when there is no frame, and it
  does return in that case.  With frames present it returns \<open>True\<close>, unless the upscaling
  rule divides by a reported width or height of zero.
\<close>

theorem analyze_video_recovers_metadata:
  assumes "vf_opens file" and "vf_frame_count file \<le> 0 \<or> vf_fps file \<le> 0"
  shows "count_frames \<lparr>cap_file = file, cap_pos = 0, cap_released = False\<rparr> 0
           = (length (vf_frames file),
              \<lparr>cap_file = file, cap_pos = length (vf_frames file), cap_released = False\<rparr>)
         \<and> (\<forall>s ok. analyze_video vx file s0 = Inr (s, ok) \<longrightarrow>
                frame_count s = int (length (vf_frames file))
                \<and> fps s = (if vf_fps file \<le> 0 then 30 else vf_fps file)
                \<and> cap s = Some \<lparr>cap_file = file, cap_pos = 0, cap_released = False\<rparr>
                \<and> (ok \<longleftrightarrow> vf_frames file \<noteq> []))
         \<and> (vf_frames file = [] \<longrightarrow> (\<exists>s. analyze_video vx file s0 = Inr (s, False)))
         \<and> (\<forall>e. analyze_video vx file s0 = Inl e \<longrightarrow>
                e = ZeroDivisionError \<and> (vf_width file = 0 \<or> vf_height file = 0))"
proof -
  define c0 where "c0 = \<lparr>cap_file = file, cap_pos = 0, cap_released = False\<rparr>"
  define s1 where "s1 = s0\<lparr>cap := Some c0, fps := vf_fps file,
    frame_count := vf_frame_count file, width := vf_width file, height := vf_height file\<rparr>"
  define s2 where "s2 = s1\<lparr>frame_count := int (length (vf_frames file)), cap := Some c0,
    fps := (if vf_fps file \<le> 0 then 30 else vf_fps file)\<rparr>"
  have op: "cap_is_open c0" using assms(1) by (simp add: c0_def cap_is_open_def)
  have cnt: "count_frames c0 0 = (length (vf_frames file), c0\<lparr>cap_pos := length (vf_frames file)\<rparr>)"
    using count_frames_open [OF op, of 0] by (simp add: c0_def)
  have rec: "recover_metadata s1 = s2"
    using recover_metadata_eq [of s1 c0] op assms(2) by (simp add: s1_def s2_def c0_def)
  have s2f: "frame_count s2 = int (length (vf_frames file))"
    "fps s2 = (if vf_fps file \<le> 0 then 30 else vf_fps file)" "cap s2 = Some c0"
    "width s2 = vf_width file" "height s2 = vf_height file"
    by (simp_all add: s2_def s1_def)
  have unfold: "analyze_video vx file s0 =
      (if frame_count s2 \<le> 0 then Inr (s2, False)
       else (let s3 = s2\<lparr>duration := (if fps s2 > 0 then real_of_int (frame_count s2) / fps s2
                                         else 0)\<rparr>;
                 (c3, ms) = sample_frames vx (sample_indices (frame_count s3)) c0 []
             in case derive_enhancement (average_metrics ms) (target_resolution s3)
                       (width s3) (height s3) of
                  Inl e \<Rightarrow> Inl e
                | Inr p \<Rightarrow> Inr (s3\<lparr>enhancement_params := p, cap := Some (cap_set_pos 0 c3)\<rparr>,
                              True)))"
    using op rec s2f(3)
    by (simp add: analyze_video_def Let_def flip: c0_def s1_def)
  show ?thesis
  proof (cases "vf_frames file = []")
    case True
    then have "analyze_video vx file s0 = Inr (s2, False)"
      by (simp add: unfold s2f)
    then show ?thesis using True cnt s2f by (simp add: c0_def)
  next
    case False
    define s3 where "s3 = s2\<lparr>duration := (if fps s2 > 0
        then real_of_int (frame_count s2) / fps s2 else 0)\<rparr>"
    let ?idxs = "sample_indices (int (length (vf_frames file)))"
    obtain c3 ms where sf: "sample_frames vx ?idxs c0 [] = (c3, ms)"
      by (cases "sample_frames vx ?idxs c0 []") auto
    have c3: "cap_set_pos 0 c3 = c0"
      using sample_frames_capture [of vx ?idxs c0 "[]"] sf
      by (simp add: cap_set_pos_def c0_def)
    have eq: "analyze_video vx file s0 =
        (case derive_enhancement (average_metrics ms) (target_resolution s3) (width s3) (height s3) of
           Inl e \<Rightarrow> Inl e
         | Inr p \<Rightarrow> Inr (s3\<lparr>enhancement_params := p, cap := Some c0\<rparr>, True))"
      using False sf c3 by (simp add: unfold s2f s3_def Let_def split: sum.splits)
    have wh: "width s3 = vf_width file" "height s3 = vf_height file"
      by (simp_all add: s3_def s2f)
    have r: "frame_count s = int (length (vf_frames file))
          \<and> fps s = (if vf_fps file \<le> 0 then 30 else vf_fps file)
          \<and> cap s = Some c0 \<and> ok"
      if "analyze_video vx file s0 = Inr (s, ok)" for s ok
      using that unfolding eq by (auto simp: s3_def s2f split: sum.splits)
    have e: "e = ZeroDivisionError \<and> (vf_width file = 0 \<or> vf_height file = 0)"
      if "analyze_video vx file s0 = Inl e" for e
      using that derive_enhancement_error [of "average_metrics ms" "target_resolution s3"
          "width s3" "height s3" e]
      unfolding eq wh by (auto split: sum.splits)
    show ?thesis using False cnt r e by (auto simp: c0_def)
  qed
qed

theorem analyze_video_recovers_metadata_witness:
  "\<exists>s. analyze_video ex_video_externals ex_video_no_metadata (init_enhancer None) = Inr (s, True)
       \<and> frame_count s = 2 \<and> fps s = 30
       \<and> cap s = Some \<lparr>cap_file = ex_video_no_metadata, cap_pos = 0, cap_released = False\<rparr>"
proof -
  have h: "vf_opens ex_video_no_metadata"
    "vf_frame_count ex_video_no_metadata \<le> 0 \<or> vf_fps ex_video_no_metadata \<le> 0"
    by (simp_all add: ex_video_no_metadata_def)
  note t = analyze_video_recovers_metadata [OF h, of ex_video_externals "init_enhancer None"]
  show ?thesis
  proof (cases "analyze_video ex_video_externals ex_video_no_metadata (init_enhancer None)")
    case (Inl e)
    then show ?thesis using t by (simp add: ex_video_no_metadata_def)
  next
    case (Inr r)
    then obtain s ok where "analyze_video ex_video_externals ex_video_no_metadata
        (init_enhancer None) = Inr (s, ok)"
      by (cases r) simp
    then show ?thesis using t by (auto simp: ex_video_no_metadata_def)
  qed
qed

section \<open>Video: the capture when the output cannot be opened\<close>

lemma ex_video_analyze:
  "analyze_video ex_video_externals ex_video (init_enhancer None) =
     Inr ((init_enhancer None)\<lparr>fps := 8, frame_count := 1, width := 1, height := 1,
            duration := 1 / 8,
            enhancement_params := default_enh_params\<lparr>needs_upscaling := True,
              upscale_factor := 2\<rparr>,
            cap := Some \<lparr>cap_file = ex_video, cap_pos = 0, cap_released = False\<rparr>\<rparr>, True)"
  by (simp add: analyze_video_def recover_metadata_def sample_indices_def cap_read_def
      cap_set_pos_def cap_is_open_def average_metrics_def np_mean_def
      derive_enhancement_def upscale_rule_def denoise_rule_def sharpen_rule_def
      brightness_rule_def contrast_rule_def color_rule_def fgt_def flt_def
      ex_video_def ex_video_externals_def init_enhancer_def Let_def)

lemma video_process_success_releases:
  assumes "video_process vx file output_opens s0 = Inr (s, w, True)"
  shows "\<exists>c out. cap s = Some c \<and> cap_released c \<and> w = Some out \<and> out_released out"
proof (cases "analyze_video vx file s0")
  case (Inl e)
  then show ?thesis using assms by (simp add: video_process_def)
next
  case (Inr r)
  obtain s1 ok where r: "r = (s1, ok)" by (cases r)
  show ?thesis
  proof (cases ok)
    case False
    then show ?thesis using assms Inr r by (simp add: video_process_def)
  next
    case True
    show ?thesis
    proof (cases "cap s1")
      case None
      then show ?thesis using assms Inr r True
        by (simp add: video_process_def Let_def split: if_splits)
    next
      case (Some c)
      obtain c' written where
        "write_frames vx (enhancement_params s1) c [] = (c', written)"
        by (cases "write_frames vx (enhancement_params s1) c []")
      then show ?thesis using assms Inr r True Some
        by (auto simp: video_process_def Let_def cap_release_def split: if_splits)
    qed
  qed
qed

lemma video_process_output_failure:
  assumes "analyze_video vx file s0 = Inr (s1, True)"
  shows "\<exists>out. video_process vx file False s0 = Inr (s1, Some out, False)"
  using assms by (simp add: video_process_def Let_def)

text \<open>
  Claim C3 does not hold of the code.  On the one-frame example, when the output file
  cannot be opened, \<open>process\<close> returns \<open>False\<close> and the input capture is still open: the
  early return of line 297 skips the \<open>release\<close> calls that the successful path makes
  (\<open>video_process_success_releases\<close>).
\<close>

theorem process_output_failure_leaves_capture_open:
  "\<exists>s out c. video_process ex_video_externals ex_video False (init_enhancer None)
                = Inr (s, Some out, False)
       \<and> \<not> out_opened out \<and> cap s = Some c \<and> cap_is_open c \<and> \<not> cap_released c"
  by (simp add: video_process_def ex_video_analyze Let_def cap_is_open_def)
    (simp add: ex_video_def)

end
